theory Spec2Isabelle
  imports Complex_Main "HOL-Library.AList"
begin

section \<open>The notebooks as data\<close>

text \<open>
  The repository holds two Jupyter notebooks, \<^verbatim>\<open>src/pybamm.ipynb\<close> and
  \<^verbatim>\<open>src/unnamed/part_000\<close>. A notebook is a sequence of cells; a cell is either
  markdown prose or Python code. The code cells are the program. Each notebook is embedded
  three times over: its layout (the kind of every cell, in order), the source text of its
  code cells (one string per line, a tab written \<open>CHR 0x09\<close>), and the abstract syntax
  of that text.
\<close>

datatype cell_kind = Markdown | Code

subsection \<open>Abstract syntax of the Python fragment\<close>

text \<open>
  Expressions and statements follow Python's own \<^verbatim>\<open>ast\<close> module. An f-string is the
  list of its parts (\<^verbatim>\<open>JoinedStr\<close>): literal text is a \<open>StrLit\<close>, a replacement field
  \<^verbatim>\<open>{e}\<close> is the expression \<open>e\<close>. A call has its callee, its positional
  arguments and its keyword arguments. The expression forms \<open>BinOp\<close> and \<open>Lambda\<close> and
  the statement forms \<open>Try\<close>, \<open>With\<close>, \<open>FunctionDef\<close> and \<open>ClassDef\<close> are part of
  the syntax so that their absence from a notebook is a property of the notebook and not
  of the type.
\<close>

datatype expr =
    Name string
  | IntLit int
  | FloatLit rat
  | StrLit string
  | FString "expr list"
  | ListE "expr list"
  | TupleE "expr list"
  | DictE "(expr \<times> expr) list"
  | Attr expr string
  | Subscript expr expr
  | Call expr "expr list" "(string \<times> expr) list"
  | BinOp expr string expr
  | Lambda "string list" expr

datatype stmt =
    Import string
  | Assign expr expr
  | ExprStmt expr
  | For string expr "stmt list"
  | Try "stmt list" "stmt list"
  | With expr "stmt list"
  | FunctionDef string "string list" "stmt list"
  | ClassDef string "stmt list"

subsection \<open>The two notebooks\<close>

text \<open>
  \<^verbatim>\<open>src/pybamm.ipynb\<close>: 26 cells, twelve of them code. The code cells are numbered
  from 0 in the order of the notebook; markdown prose is not part of the program and is
  not embedded.
\<close>

definition pybamm_ipynb_layout :: \<open>cell_kind list\<close> where
  \<open>pybamm_ipynb_layout =
    [Markdown, Code, Markdown, Code, Markdown, Code,
     Markdown, Code, Markdown, Code, Markdown, Code,
     Markdown, Code, Markdown, Code, Markdown, Code,
     Markdown, Code, Markdown, Code, Markdown, Markdown,
     Code, Markdown]\<close>

definition pybamm_ipynb_source :: \<open>string list list\<close> where
  \<open>pybamm_ipynb_source =
   [[''import pybamm''],

    [''model = pybamm.lithium_ion.DFN()''],

    [''simulation = pybamm.Simulation(model)''],

    [''simulation.solve([0, 3600])''],

    [''simulation.plot()''],

    [''models = ['',
     CHR 0x09 # ''pybamm.lithium_ion.SPM(),'',
     CHR 0x09 # ''pybamm.lithium_ion.SPMe(),'',
     CHR 0x09 # ''pybamm.lithium_ion.DFN(),'',
     '']'',
     ''simulations = []'',
     ''for model in models:'',
     CHR 0x09 # ''simulation = pybamm.Simulation(model)'',
     CHR 0x09 # ''simulation.solve([0, 3600])'',
     CHR 0x09 # ''simulations.append(simulation)'',
     ''pybamm.dynamic_plot(simulations)'',
     ''''],

    [''parameter_values = pybamm.ParameterValues("Chen2020")'',
     ''print(parameter_values)''],

    [''parameter_values["Current function [A]"] = 2.0'',
     ''sim = pybamm.Simulation(model, parameter_values=parameter_values)'',
     ''sim.solve([0, 3600])''],

    [''parameter_values = pybamm.ParameterValues("Chen2020")'',
     ''parameter_values["Current function [A]"] = "[input]"'',
     ''model = pybamm.lithium_ion.SPM()'',
     ''sim = pybamm.Simulation(model, parameter_values=parameter_values)'',
     '''',
     ''solutions = []'',
     ''labels = []'',
     ''for i in range(1, 5):'',
     ''    sol = sim.solve([0, 3600], inputs={ "Current function [A]": i})'',
     ''    solutions.append(sol)'',
     ''    labels.append(f"Current = {i} [A]")'',
     ''pybamm.dynamic_plot(solutions, labels=labels)'',
     ''    '',
     '''',
     ''''],

    [''model.submodels''],

    [''thermal_options = ["isothermal", "x-full"]'',
     ''solutions = []'',
     '''',
     ''for option in thermal_options:'',
     CHR 0x09 # ''model = pybamm.lithium_ion.DFN(name=option, options={"thermal": option})'',
     CHR 0x09 # ''simulation = pybamm.Simulation(model)'',
     CHR 0x09 # ''solutions.append(simulation.solve([0, 3600]))'',
     '''',
     ''pybamm.dynamic_plot('',
     ''    solutions,'',
     ''    output_variables=['',
     ''        "Negative particle surface concentration [mol.m-3]",'',
     ''        "Electrolyte concentration [mol.m-3]",'',
     ''        "Positive particle surface concentration [mol.m-3]",'',
     ''        "Negative electrode potential [V]",'',
     ''        "Electrolyte potential [V]",'',
     ''        "Positive electrode potential [V]",'',
     ''        "Current [A]",'',
     ''        "Voltage [V]",'',
     ''        "Cell temperature [K]",'',
     ''    ],'',
     ''  )''],

    [''model = pybamm.lithium_ion.DFN('',
     ''    options={"particle mechanics": ("swelling only", "swelling and cracking")}'',
     '')'',
     ''parameter_values = pybamm.ParameterValues("Ai2020")'',
     ''simulation = pybamm.Simulation(model, parameter_values=parameter_values)'',
     ''solution = simulation.solve([0, 3600])'',
     '''',
     ''solution.plot(['',
     ''    "Negative particle surface radial stress [Pa]",'',
     ''    "Negative particle surface tangential stress [Pa]",'',
     ''    "Negative particle surface displacement [m]",'',
     CHR 0x09 # ''"Negative particle crack length [m]",'',
     ''    "Positive particle surface radial stress [Pa]",'',
     ''    "Positive particle surface tangential stress [Pa]",'',
     ''    "Positive particle surface displacement [m]",'',
     ''    "Positive particle crack length [m]",'',
     ''])'']]\<close>

definition pybamm_ipynb_program :: \<open>stmt list list\<close> where
  \<open>pybamm_ipynb_program =
   [[Import ''pybamm''],

    [Assign
       (Name ''model'')
       (Call (Attr (Attr (Name ''pybamm'') ''lithium_ion'') ''DFN'') [] [])],

    [Assign
       (Name ''simulation'')
       (Call (Attr (Name ''pybamm'') ''Simulation'') [Name ''model''] [])],

    [ExprStmt
       (Call (Attr (Name ''simulation'') ''solve'') [ListE [IntLit 0, IntLit 3600]] [])],

    [ExprStmt (Call (Attr (Name ''simulation'') ''plot'') [] [])],

    [Assign
       (Name ''models'')
       (ListE
          [Call (Attr (Attr (Name ''pybamm'') ''lithium_ion'') ''SPM'') [] [],
           Call (Attr (Attr (Name ''pybamm'') ''lithium_ion'') ''SPMe'') [] [],
           Call (Attr (Attr (Name ''pybamm'') ''lithium_ion'') ''DFN'') [] []]),
     Assign (Name ''simulations'') (ListE []),
     For ''model'' (Name ''models'')
       [Assign
          (Name ''simulation'')
          (Call (Attr (Name ''pybamm'') ''Simulation'') [Name ''model''] []),
        ExprStmt
          (Call (Attr (Name ''simulation'') ''solve'') [ListE [IntLit 0, IntLit 3600]] []),
        ExprStmt (Call (Attr (Name ''simulations'') ''append'') [Name ''simulation''] [])],
     ExprStmt (Call (Attr (Name ''pybamm'') ''dynamic_plot'') [Name ''simulations''] [])],

    [Assign
       (Name ''parameter_values'')
       (Call (Attr (Name ''pybamm'') ''ParameterValues'') [StrLit ''Chen2020''] []),
     ExprStmt (Call (Name ''print'') [Name ''parameter_values''] [])],

    [Assign
       (Subscript (Name ''parameter_values'') (StrLit ''Current function [A]''))
       (FloatLit 2),
     Assign
       (Name ''sim'')
       (Call
          (Attr (Name ''pybamm'') ''Simulation'')
          [Name ''model'']
          [(''parameter_values'', Name ''parameter_values'')]),
     ExprStmt (Call (Attr (Name ''sim'') ''solve'') [ListE [IntLit 0, IntLit 3600]] [])],

    [Assign
       (Name ''parameter_values'')
       (Call (Attr (Name ''pybamm'') ''ParameterValues'') [StrLit ''Chen2020''] []),
     Assign
       (Subscript (Name ''parameter_values'') (StrLit ''Current function [A]''))
       (StrLit ''[input]''),
     Assign
       (Name ''model'')
       (Call (Attr (Attr (Name ''pybamm'') ''lithium_ion'') ''SPM'') [] []),
     Assign
       (Name ''sim'')
       (Call
          (Attr (Name ''pybamm'') ''Simulation'')
          [Name ''model'']
          [(''parameter_values'', Name ''parameter_values'')]),
     Assign (Name ''solutions'') (ListE []),
     Assign (Name ''labels'') (ListE []),
     For ''i'' (Call (Name ''range'') [IntLit 1, IntLit 5] [])
       [Assign
          (Name ''sol'')
          (Call
             (Attr (Name ''sim'') ''solve'')
             [ListE [IntLit 0, IntLit 3600]]
             [(''inputs'', DictE [(StrLit ''Current function [A]'', Name ''i'')])]),
        ExprStmt (Call (Attr (Name ''solutions'') ''append'') [Name ''sol''] []),
        ExprStmt
          (Call
             (Attr (Name ''labels'') ''append'')
             [FString [StrLit ''Current = '', Name ''i'', StrLit '' [A]'']]
             [])],
     ExprStmt
       (Call
          (Attr (Name ''pybamm'') ''dynamic_plot'')
          [Name ''solutions'']
          [(''labels'', Name ''labels'')])],

    [ExprStmt (Attr (Name ''model'') ''submodels'')],

    [Assign (Name ''thermal_options'') (ListE [StrLit ''isothermal'', StrLit ''x-full'']),
     Assign (Name ''solutions'') (ListE []),
     For ''option'' (Name ''thermal_options'')
       [Assign
          (Name ''model'')
          (Call
             (Attr (Attr (Name ''pybamm'') ''lithium_ion'') ''DFN'')
             []
             [(''name'', Name ''option''),
              (''options'', DictE [(StrLit ''thermal'', Name ''option'')])]),
        Assign
          (Name ''simulation'')
          (Call (Attr (Name ''pybamm'') ''Simulation'') [Name ''model''] []),
        ExprStmt
          (Call
             (Attr (Name ''solutions'') ''append'')
             [Call (Attr (Name ''simulation'') ''solve'') [ListE [IntLit 0, IntLit 3600]] []]
             [])],
     ExprStmt
       (Call
          (Attr (Name ''pybamm'') ''dynamic_plot'')
          [Name ''solutions'']
          [(''output_variables'',
            ListE
              [StrLit ''Negative particle surface concentration [mol.m-3]'',
               StrLit ''Electrolyte concentration [mol.m-3]'',
               StrLit ''Positive particle surface concentration [mol.m-3]'',
               StrLit ''Negative electrode potential [V]'',
               StrLit ''Electrolyte potential [V]'',
               StrLit ''Positive electrode potential [V]'',
               StrLit ''Current [A]'',
               StrLit ''Voltage [V]'',
               StrLit ''Cell temperature [K]''])])],

    [Assign
       (Name ''model'')
       (Call
          (Attr (Attr (Name ''pybamm'') ''lithium_ion'') ''DFN'')
          []
          [(''options'',
            DictE
              [(StrLit ''particle mechanics'',
                TupleE [StrLit ''swelling only'', StrLit ''swelling and cracking''])])]),
     Assign
       (Name ''parameter_values'')
       (Call (Attr (Name ''pybamm'') ''ParameterValues'') [StrLit ''Ai2020''] []),
     Assign
       (Name ''simulation'')
       (Call
          (Attr (Name ''pybamm'') ''Simulation'')
          [Name ''model'']
          [(''parameter_values'', Name ''parameter_values'')]),
     Assign
       (Name ''solution'')
       (Call (Attr (Name ''simulation'') ''solve'') [ListE [IntLit 0, IntLit 3600]] []),
     ExprStmt
       (Call
          (Attr (Name ''solution'') ''plot'')
          [ListE
             [StrLit ''Negative particle surface radial stress [Pa]'',
              StrLit ''Negative particle surface tangential stress [Pa]'',
              StrLit ''Negative particle surface displacement [m]'',
              StrLit ''Negative particle crack length [m]'',
              StrLit ''Positive particle surface radial stress [Pa]'',
              StrLit ''Positive particle surface tangential stress [Pa]'',
              StrLit ''Positive particle surface displacement [m]'',
              StrLit ''Positive particle crack length [m]'']]
          [])]]\<close>

text \<open>
  \<^verbatim>\<open>src/unnamed/part_000\<close>: 27 cells, twelve of them code.
\<close>

definition part_000_layout :: \<open>cell_kind list\<close> where
  \<open>part_000_layout =
    [Markdown, Code, Markdown, Code, Markdown, Code,
     Markdown, Code, Markdown, Code, Markdown, Code,
     Markdown, Code, Markdown, Code, Markdown, Code,
     Markdown, Code, Markdown, Code, Markdown, Markdown,
     Code, Markdown, Markdown]\<close>

definition part_000_source :: \<open>string list list\<close> where
  \<open>part_000_source =
   [[''import pybamm''],

    [''model = pybamm.lithium_ion.DFN()''],

    [''simulation = pybamm.Simulation(model)''],

    [''simulation.solve([0, 3600])''],

    [''simulation.plot()''],

    [''models = ['',
     CHR 0x09 # ''pybamm.lithium_ion.SPM(),'',
     CHR 0x09 # ''pybamm.lithium_ion.SPMe(),'',
     CHR 0x09 # ''pybamm.lithium_ion.DFN(),'',
     '']'',
     ''simulations = []'',
     ''for model in models:'',
     CHR 0x09 # ''simulation = pybamm.Simulation(model)'',
     CHR 0x09 # ''simulation.solve([0, 3600])'',
     CHR 0x09 # ''simulations.append(simulation)'',
     ''pybamm.dynamic_plot(simulations)'',
     ''''],

    [''parameter_values = pybamm.ParameterValues("Chen2020")'',
     ''print(parameter_values)''],

    [''parameter_values["Current function [A]"] = 2.0'',
     ''sim = pybamm.Simulation(model, parameter_values=parameter_values)'',
     ''sim.solve([0, 3600])''],

    [''parameter_values = pybamm.ParameterValues("Chen2020")'',
     ''parameter_values["Current function [A]"] = "[input]"'',
     ''model = pybamm.lithium_ion.SPM()'',
     ''sim = pybamm.Simulation(model, parameter_values=parameter_values)'',
     '''',
     ''solutions = []'',
     ''labels = []'',
     ''for i in range(1, 5):'',
     ''    sol = sim.solve([0, 3600], inputs={ "Current function [A]": i})'',
     ''    solutions.append(sol)'',
     ''    labels.append(f"Current = {i} [A]")'',
     ''pybamm.dynamic_plot(solutions, labels=labels)'',
     ''    '',
     '''',
     ''''],

    [''model.submodels''],

    [''thermal_options = ["isothermal", "x-full"]'',
     ''solutions = []'',
     '''',
     ''for option in thermal_options:'',
     CHR 0x09 # ''model = pybamm.lithium_ion.DFN(name=option, options={"thermal": option})'',
     CHR 0x09 # ''simulation = pybamm.Simulation(model)'',
     CHR 0x09 # ''solutions.append(simulation.solve([0, 3600]))'',
     '''',
     ''pybamm.dynamic_plot('',
     ''    solutions,'',
     ''    output_variables=['',
     ''        "Negative particle surface concentration [mol.m-3]",'',
     ''        "Electrolyte concentration [mol.m-3]",'',
     ''        "Positive particle surface concentration [mol.m-3]",'',
     ''        "Negative electrode potential [V]",'',
     ''        "Electrolyte potential [V]",'',
     ''        "Positive electrode potential [V]",'',
     ''        "Current [A]",'',
     ''        "Voltage [V]",'',
     ''        "Cell temperature [K]",'',
     ''    ],'',
     ''  )''],

    [''model = pybamm.lithium_ion.DFN('',
     ''    options={"particle mechanics": ("swelling only", "swelling and cracking")}'',
     '')'',
     ''parameter_values = pybamm.ParameterValues("Ai2020")'',
     ''simulation = pybamm.Simulation(model, parameter_values=parameter_values)'',
     ''solution = simulation.solve([0, 3600])'',
     '''',
     ''solution.plot(['',
     ''    "Negative particle surface radial stress [Pa]",'',
     ''    "Negative particle surface tangential stress [Pa]",'',
     ''    "Negative particle surface displacement [m]",'',
     CHR 0x09 # ''"Negative particle crack length [m]",'',
     ''    "Positive particle surface radial stress [Pa]",'',
     ''    "Positive particle surface tangential stress [Pa]",'',
     ''    "Positive particle surface displacement [m]",'',
     ''    "Positive particle crack length [m]",'',
     ''])'']]\<close>

definition part_000_program :: \<open>stmt list list\<close> where
  \<open>part_000_program =
   [[Import ''pybamm''],

    [Assign
       (Name ''model'')
       (Call (Attr (Attr (Name ''pybamm'') ''lithium_ion'') ''DFN'') [] [])],

    [Assign
       (Name ''simulation'')
       (Call (Attr (Name ''pybamm'') ''Simulation'') [Name ''model''] [])],

    [ExprStmt
       (Call (Attr (Name ''simulation'') ''solve'') [ListE [IntLit 0, IntLit 3600]] [])],

    [ExprStmt (Call (Attr (Name ''simulation'') ''plot'') [] [])],

    [Assign
       (Name ''models'')
       (ListE
          [Call (Attr (Attr (Name ''pybamm'') ''lithium_ion'') ''SPM'') [] [],
           Call (Attr (Attr (Name ''pybamm'') ''lithium_ion'') ''SPMe'') [] [],
           Call (Attr (Attr (Name ''pybamm'') ''lithium_ion'') ''DFN'') [] []]),
     Assign (Name ''simulations'') (ListE []),
     For ''model'' (Name ''models'')
       [Assign
          (Name ''simulation'')
          (Call (Attr (Name ''pybamm'') ''Simulation'') [Name ''model''] []),
        ExprStmt
          (Call (Attr (Name ''simulation'') ''solve'') [ListE [IntLit 0, IntLit 3600]] []),
        ExprStmt (Call (Attr (Name ''simulations'') ''append'') [Name ''simulation''] [])],
     ExprStmt (Call (Attr (Name ''pybamm'') ''dynamic_plot'') [Name ''simulations''] [])],

    [Assign
       (Name ''parameter_values'')
       (Call (Attr (Name ''pybamm'') ''ParameterValues'') [StrLit ''Chen2020''] []),
     ExprStmt (Call (Name ''print'') [Name ''parameter_values''] [])],

    [Assign
       (Subscript (Name ''parameter_values'') (StrLit ''Current function [A]''))
       (FloatLit 2),
     Assign
       (Name ''sim'')
       (Call
          (Attr (Name ''pybamm'') ''Simulation'')
          [Name ''model'']
          [(''parameter_values'', Name ''parameter_values'')]),
     ExprStmt (Call (Attr (Name ''sim'') ''solve'') [ListE [IntLit 0, IntLit 3600]] [])],

    [Assign
       (Name ''parameter_values'')
       (Call (Attr (Name ''pybamm'') ''ParameterValues'') [StrLit ''Chen2020''] []),
     Assign
       (Subscript (Name ''parameter_values'') (StrLit ''Current function [A]''))
       (StrLit ''[input]''),
     Assign
       (Name ''model'')
       (Call (Attr (Attr (Name ''pybamm'') ''lithium_ion'') ''SPM'') [] []),
     Assign
       (Name ''sim'')
       (Call
          (Attr (Name ''pybamm'') ''Simulation'')
          [Name ''model'']
          [(''parameter_values'', Name ''parameter_values'')]),
     Assign (Name ''solutions'') (ListE []),
     Assign (Name ''labels'') (ListE []),
     For ''i'' (Call (Name ''range'') [IntLit 1, IntLit 5] [])
       [Assign
          (Name ''sol'')
          (Call
             (Attr (Name ''sim'') ''solve'')
             [ListE [IntLit 0, IntLit 3600]]
             [(''inputs'', DictE [(StrLit ''Current function [A]'', Name ''i'')])]),
        ExprStmt (Call (Attr (Name ''solutions'') ''append'') [Name ''sol''] []),
        ExprStmt
          (Call
             (Attr (Name ''labels'') ''append'')
             [FString [StrLit ''Current = '', Name ''i'', StrLit '' [A]'']]
             [])],
     ExprStmt
       (Call
          (Attr (Name ''pybamm'') ''dynamic_plot'')
          [Name ''solutions'']
          [(''labels'', Name ''labels'')])],

    [ExprStmt (Attr (Name ''model'') ''submodels'')],

    [Assign (Name ''thermal_options'') (ListE [StrLit ''isothermal'', StrLit ''x-full'']),
     Assign (Name ''solutions'') (ListE []),
     For ''option'' (Name ''thermal_options'')
       [Assign
          (Name ''model'')
          (Call
             (Attr (Attr (Name ''pybamm'') ''lithium_ion'') ''DFN'')
             []
             [(''name'', Name ''option''),
              (''options'', DictE [(StrLit ''thermal'', Name ''option'')])]),
        Assign
          (Name ''simulation'')
          (Call (Attr (Name ''pybamm'') ''Simulation'') [Name ''model''] []),
        ExprStmt
          (Call
             (Attr (Name ''solutions'') ''append'')
             [Call (Attr (Name ''simulation'') ''solve'') [ListE [IntLit 0, IntLit 3600]] []]
             [])],
     ExprStmt
       (Call
          (Attr (Name ''pybamm'') ''dynamic_plot'')
          [Name ''solutions'']
          [(''output_variables'',
            ListE
              [StrLit ''Negative particle surface concentration [mol.m-3]'',
               StrLit ''Electrolyte concentration [mol.m-3]'',
               StrLit ''Positive particle surface concentration [mol.m-3]'',
               StrLit ''Negative electrode potential [V]'',
               StrLit ''Electrolyte potential [V]'',
               StrLit ''Positive electrode potential [V]'',
               StrLit ''Current [A]'',
               StrLit ''Voltage [V]'',
               StrLit ''Cell temperature [K]''])])],

    [Assign
       (Name ''model'')
       (Call
          (Attr (Attr (Name ''pybamm'') ''lithium_ion'') ''DFN'')
          []
          [(''options'',
            DictE
              [(StrLit ''particle mechanics'',
                TupleE [StrLit ''swelling only'', StrLit ''swelling and cracking''])])]),
     Assign
       (Name ''parameter_values'')
       (Call (Attr (Name ''pybamm'') ''ParameterValues'') [StrLit ''Ai2020''] []),
     Assign
       (Name ''simulation'')
       (Call
          (Attr (Name ''pybamm'') ''Simulation'')
          [Name ''model'']
          [(''parameter_values'', Name ''parameter_values'')]),
     Assign
       (Name ''solution'')
       (Call (Attr (Name ''simulation'') ''solve'') [ListE [IntLit 0, IntLit 3600]] []),
     ExprStmt
       (Call
          (Attr (Name ''solution'') ''plot'')
          [ListE
             [StrLit ''Negative particle surface radial stress [Pa]'',
              StrLit ''Negative particle surface tangential stress [Pa]'',
              StrLit ''Negative particle surface displacement [m]'',
              StrLit ''Negative particle crack length [m]'',
              StrLit ''Positive particle surface radial stress [Pa]'',
              StrLit ''Positive particle surface tangential stress [Pa]'',
              StrLit ''Positive particle surface displacement [m]'',
              StrLit ''Positive particle crack length [m]'']]
          [])]]\<close>


section \<open>Reading the syntax\<close>

text \<open>
  The expressions and statements of a notebook, nested ones included, in the order in
  which they stand in the text.
\<close>

fun subexprs :: "expr \<Rightarrow> expr list" where
  "subexprs (FString ps) = FString ps # concat (map subexprs ps)"
| "subexprs (ListE es) = ListE es # concat (map subexprs es)"
| "subexprs (TupleE es) = TupleE es # concat (map subexprs es)"
| "subexprs (DictE kvs) = DictE kvs # concat (map (\<lambda>(k, v). subexprs k @ subexprs v) kvs)"
| "subexprs (Attr e n) = Attr e n # subexprs e"
| "subexprs (Subscript e k) = Subscript e k # subexprs e @ subexprs k"
| "subexprs (Call f args kws) =
     Call f args kws # subexprs f @ concat (map subexprs args)
       @ concat (map (\<lambda>(k, e). subexprs e) kws)"
| "subexprs (BinOp l op r) = BinOp l op r # subexprs l @ subexprs r"
| "subexprs (Lambda ps b) = Lambda ps b # subexprs b"
| "subexprs e = [e]"

fun substmts :: "stmt \<Rightarrow> stmt list" where
  "substmts (For x it body) = For x it body # concat (map substmts body)"
| "substmts (Try body handler) =
     Try body handler # concat (map substmts body) @ concat (map substmts handler)"
| "substmts (With e body) = With e body # concat (map substmts body)"
| "substmts (FunctionDef f ps body) = FunctionDef f ps body # concat (map substmts body)"
| "substmts (ClassDef c body) = ClassDef c body # concat (map substmts body)"
| "substmts s = [s]"

fun heads :: "stmt \<Rightarrow> expr list" where
  "heads (Import m) = []"
| "heads (Assign t e) = [t, e]"
| "heads (ExprStmt e) = [e]"
| "heads (For x it body) = [it]"
| "heads (Try body handler) = []"
| "heads (With e body) = [e]"
| "heads (FunctionDef f ps body) = []"
| "heads (ClassDef c body) = []"

definition statements :: "stmt list list \<Rightarrow> stmt list" where
  "statements prog = concat (map substmts (concat prog))"

definition expressions :: "stmt list list \<Rightarrow> expr list" where
  "expressions prog = concat (map subexprs (concat (map heads (statements prog))))"

datatype stmt_kind = KImport | KAssign | KExpr | KFor | KTry | KWith | KDef | KClass

fun kind_of :: "stmt \<Rightarrow> stmt_kind" where
  "kind_of (Import m) = KImport"
| "kind_of (Assign t e) = KAssign"
| "kind_of (ExprStmt e) = KExpr"
| "kind_of (For x it body) = KFor"
| "kind_of (Try body handler) = KTry"
| "kind_of (With e body) = KWith"
| "kind_of (FunctionDef f ps body) = KDef"
| "kind_of (ClassDef c body) = KClass"

datatype expr_kind =
    EName | EInt | EFloat | EStr | EFString | EList | ETuple | EDict | EAttr | ESubscript
  | ECall | EBinOp | ELambda

fun expr_kind_of :: "expr \<Rightarrow> expr_kind" where
  "expr_kind_of (Name x) = EName"
| "expr_kind_of (IntLit i) = EInt"
| "expr_kind_of (FloatLit r) = EFloat"
| "expr_kind_of (StrLit s) = EStr"
| "expr_kind_of (FString ps) = EFString"
| "expr_kind_of (ListE es) = EList"
| "expr_kind_of (TupleE es) = ETuple"
| "expr_kind_of (DictE kvs) = EDict"
| "expr_kind_of (Attr e n) = EAttr"
| "expr_kind_of (Subscript e k) = ESubscript"
| "expr_kind_of (Call f args kws) = ECall"
| "expr_kind_of (BinOp l op r) = EBinOp"
| "expr_kind_of (Lambda ps b) = ELambda"

fun is_computed :: "expr \<Rightarrow> bool" where
  "is_computed (BinOp l op r) = True"
| "is_computed (Lambda ps b) = True"
| "is_computed e = False"

fun is_call :: "expr \<Rightarrow> bool" where
  "is_call (Call f args kws) = True"
| "is_call e = False"

fun callee :: "expr \<Rightarrow> expr" where
  "callee (Call f args kws) = f"
| "callee e = e"

fun positional :: "expr \<Rightarrow> expr list" where
  "positional (Call f args kws) = args"
| "positional e = []"

fun keyword_values :: "expr \<Rightarrow> expr list" where
  "keyword_values (Call f args kws) = map snd kws"
| "keyword_values e = []"

fun is_method_call :: "string \<Rightarrow> expr \<Rightarrow> bool" where
  "is_method_call m (Call (Attr e n) args kws) = (n = m)"
| "is_method_call m e = False"

definition calls :: "stmt list list \<Rightarrow> expr list" where
  "calls prog = filter is_call (expressions prog)"

definition solve_sites :: "stmt list list \<Rightarrow> expr list" where
  "solve_sites prog = filter (is_method_call ''solve'') (expressions prog)"


section \<open>Executing a notebook\<close>

text \<open>
  The notebooks contain no function of their own: what they do is the sequence of calls
  they make into the library \<^verbatim>\<open>pybamm\<close>. The embedding therefore runs the abstract
  syntax with a small interpreter for the Python fragment above and records every
  interaction with the library in a trace.
\<close>

subsection \<open>Values, exceptions, objects, events\<close>

text \<open>
  Python's built-in lists, tuples and dictionaries are values. A list method is bound to
  the variable that holds the list (\<open>VListMethod\<close>), so that \<^verbatim>\<open>xs.append(v)\<close> updates
  what \<^verbatim>\<open>xs\<close> holds; the notebooks never reach one list through two names.
  Objects of the library live in a heap and are referred to by their handle (\<open>VRef\<close>),
  which is what makes \<^verbatim>\<open>parameter_values[...] = ...\<close> visible to a later
  \<^verbatim>\<open>Simulation(..., parameter_values=parameter_values)\<close>. An attribute of a library
  object is the symbolic value \<open>VAttr\<close>: reading it is no event, calling it is a call
  of the object's method.
\<close>

datatype val =
    VNone
  | VInt int
  | VFloat rat
  | VStr string
  | VList "val list"
  | VTuple "val list"
  | VDict "(val \<times> val) list"
  | VRange int int
  | VBuiltin string
  | VListMethod string string
  | VLib "string list"
  | VRef nat
  | VAttr nat string

datatype exn =
    NameError string
  | TypeError string
  | AttributeError string
  | KeyError val
  | Unsupported string
  | LibraryError string

datatype obj =
    Instance val
  | ParamSet "(val \<times> val) list"

datatype event =
    LibCall val "val list" "(string \<times> val) list" "exn + val"
  | SetItem nat val val "exn option"
  | GetItem nat val "exn + val"
  | Print "val list"
  | Display val

record state =
  env :: "(string \<times> val) list"
  heap :: "obj list"
  trace :: "(nat \<times> event) list"
  ncalls :: nat
  cell :: nat

definition init :: state where
  "init = \<lparr>env = [], heap = [], trace = [], ncalls = 0, cell = 0\<rparr>"

subsection \<open>The library\<close>

text \<open>
  Modelled from the spec: the library \<^verbatim>\<open>pybamm\<close> is external and absent from the
  repository. The spec names its surface: model classes, a simulation wrapper with
  \<^verbatim>\<open>solve\<close> and \<^verbatim>\<open>plot\<close>, a parameter-value container and a plotting helper, and says
  that its failures reach the notebook as exceptions. The model keeps that much and no more.
  Every call into the library either raises or returns a fresh object that remembers the
  callee that made it (\<open>Instance\<close>). What the library raises, and when, is a parameter:
  \<open>raises L n\<close> is the exception of the \<open>n\<close>-th interaction with the library, if it
  has one. The contents of the named parameter sets are a parameter too
  (\<open>param_sets L\<close>). A parameter-value container is a store of entries (\<open>ParamSet\<close>):
  item assignment replaces the entry of the key, or adds it, and touches no other entry.
\<close>

record lib =
  param_sets :: "string \<Rightarrow> (val \<times> val) list option"
  raises :: "nat \<Rightarrow> exn option"

subsection \<open>Computations\<close>

text \<open>
  A computation takes a state and either raises an exception or returns a value, in both
  cases with the state it has reached. \<open>bindM\<close> runs one computation after another and
  stops at the first that raises; \<open>catchM\<close> runs a handler from the state in which its
  first computation raised.
\<close>

type_synonym 'a py = "state \<Rightarrow> (exn + 'a) \<times> state"

definition ret :: "'a \<Rightarrow> 'a py" where
  "ret v \<sigma> = (Inr v, \<sigma>)"

definition raise :: "exn \<Rightarrow> 'a py" where
  "raise e \<sigma> = (Inl e, \<sigma>)"

fun continue :: "(exn + 'a) \<times> state \<Rightarrow> ('a \<Rightarrow> 'b py) \<Rightarrow> (exn + 'b) \<times> state" where
  "continue (Inl e, \<sigma>) f = (Inl e, \<sigma>)"
| "continue (Inr v, \<sigma>) f = f v \<sigma>"

definition bindM :: "'a py \<Rightarrow> ('a \<Rightarrow> 'b py) \<Rightarrow> 'b py" where
  "bindM m f \<sigma> = continue (m \<sigma>) f"

fun recover :: "(exn + 'a) \<times> state \<Rightarrow> 'a py \<Rightarrow> (exn + 'a) \<times> state" where
  "recover (Inl e, \<sigma>) h = h \<sigma>"
| "recover (Inr v, \<sigma>) h = (Inr v, \<sigma>)"

definition catchM :: "'a py \<Rightarrow> 'a py \<Rightarrow> 'a py" where
  "catchM m h \<sigma> = recover (m \<sigma>) h"

fun mapM :: "('a \<Rightarrow> 'b py) \<Rightarrow> 'a list \<Rightarrow> 'b list py" where
  "mapM f [] = ret []"
| "mapM f (x # xs) = bindM (f x) (\<lambda>v. bindM (mapM f xs) (\<lambda>vs. ret (v # vs)))"

subsection \<open>Calls into the library\<close>

text \<open>
  Every interaction with the library is written to the trace with its outcome and counted.
  A call whose turn it is to fail raises before anything is made. The constructor
  \<^verbatim>\<open>pybamm.ParameterValues\<close>, given the name of a set, returns a container with the
  entries of that set, and raises when the library has no set of that name.
\<close>

definition log :: "event \<Rightarrow> state \<Rightarrow> state" where
  "log ev \<sigma> = \<sigma>\<lparr>trace := trace \<sigma> @ [(cell \<sigma>, ev)]\<rparr>"

definition tick :: "state \<Rightarrow> state" where
  "tick \<sigma> = \<sigma>\<lparr>ncalls := Suc (ncalls \<sigma>)\<rparr>"

definition new_object :: "lib \<Rightarrow> val \<Rightarrow> val list \<Rightarrow> (string \<times> val) list \<Rightarrow> exn + obj" where
  "new_object L f args kws =
     (if f = VLib [''pybamm'', ''ParameterValues'']
      then (case args of
              [VStr n] \<Rightarrow> (case param_sets L n of
                             Some ps \<Rightarrow> Inr (ParamSet ps)
                           | None \<Rightarrow> Inl (LibraryError n))
            | _ \<Rightarrow> Inr (Instance f))
      else Inr (Instance f))"

definition lib_call :: "lib \<Rightarrow> val \<Rightarrow> val list \<Rightarrow> (string \<times> val) list \<Rightarrow> val py" where
  "lib_call L f args kws \<sigma> =
     (case raises L (ncalls \<sigma>) of
        Some e \<Rightarrow> (Inl e, tick (log (LibCall f args kws (Inl e)) \<sigma>))
      | None \<Rightarrow>
          (case new_object L f args kws of
             Inl e \<Rightarrow> (Inl e, tick (log (LibCall f args kws (Inl e)) \<sigma>))
           | Inr ob \<Rightarrow>
               (Inr (VRef (length (heap \<sigma>))),
                tick (log (LibCall f args kws (Inr (VRef (length (heap \<sigma>)))))
                       (\<sigma>\<lparr>heap := heap \<sigma> @ [ob]\<rparr>)))))"

definition setitem :: "lib \<Rightarrow> val \<Rightarrow> val \<Rightarrow> val \<Rightarrow> unit py" where
  "setitem L t k v \<sigma> =
     (case t of
        VRef h \<Rightarrow>
          (if h < length (heap \<sigma>) then
             (case raises L (ncalls \<sigma>) of
                Some e \<Rightarrow> (Inl e, tick (log (SetItem h k v (Some e)) \<sigma>))
              | None \<Rightarrow>
                  (case heap \<sigma> ! h of
                     ParamSet ps \<Rightarrow>
                       (Inr (), tick (log (SetItem h k v None)
                                  (\<sigma>\<lparr>heap := (heap \<sigma>)[h := ParamSet (AList.update k v ps)]\<rparr>)))
                   | Instance c \<Rightarrow>
                       (Inr (), tick (log (SetItem h k v None) \<sigma>))))
           else (Inl (TypeError ''no such object''), \<sigma>))
      | _ \<Rightarrow> (Inl (Unsupported ''item assignment to a built-in container''), \<sigma>))"

definition getitem :: "lib \<Rightarrow> val \<Rightarrow> val \<Rightarrow> val py" where
  "getitem L t k \<sigma> =
     (case t of
        VRef h \<Rightarrow>
          (if h < length (heap \<sigma>) then
             (case raises L (ncalls \<sigma>) of
                Some e \<Rightarrow> (Inl e, tick (log (GetItem h k (Inl e)) \<sigma>))
              | None \<Rightarrow>
                  (case heap \<sigma> ! h of
                     ParamSet ps \<Rightarrow>
                       (case map_of ps k of
                          Some v \<Rightarrow> (Inr v, tick (log (GetItem h k (Inr v)) \<sigma>))
                        | None \<Rightarrow> (Inl (KeyError k), tick (log (GetItem h k (Inl (KeyError k))) \<sigma>)))
                   | Instance c \<Rightarrow>
                       (Inr (VRef (length (heap \<sigma>))),
                        tick (log (GetItem h k (Inr (VRef (length (heap \<sigma>)))))
                               (\<sigma>\<lparr>heap := heap \<sigma> @ [Instance (VAttr h ''__getitem__'')]\<rparr>)))))
           else (Inl (TypeError ''no such object''), \<sigma>))
      | VDict items \<Rightarrow>
          (case map_of items k of
             Some v \<Rightarrow> (Inr v, \<sigma>)
           | None \<Rightarrow> (Inl (KeyError k), \<sigma>))
      | _ \<Rightarrow> (Inl (Unsupported ''subscript of this value''), \<sigma>))"

subsection \<open>Built-in Python\<close>

definition builtins :: "string list" where
  "builtins = [''print'', ''range'']"

definition lookup :: "string \<Rightarrow> val py" where
  "lookup x \<sigma> =
     (case map_of (env \<sigma>) x of
        Some v \<Rightarrow> (Inr v, \<sigma>)
      | None \<Rightarrow> if x \<in> set builtins then (Inr (VBuiltin x), \<sigma>) else (Inl (NameError x), \<sigma>))"

definition bind_name :: "string \<Rightarrow> val \<Rightarrow> unit py" where
  "bind_name x v \<sigma> = (Inr (), \<sigma>\<lparr>env := AList.update x v (env \<sigma>)\<rparr>)"

fun digits :: "nat \<Rightarrow> string" where
  "digits n =
     (if n < 10 then [''0123456789'' ! n]
      else digits (n div 10) @ [''0123456789'' ! (n mod 10)])"

declare digits.simps [simp del]

definition str_int :: "int \<Rightarrow> string" where
  "str_int i = (if i < 0 then CHR ''-'' # digits (nat (- i)) else digits (nat i))"

fun format_value :: "val \<Rightarrow> string py" where
  "format_value (VStr s) = ret s"
| "format_value (VInt i) = ret (str_int i)"
| "format_value v = raise (Unsupported ''format of this value'')"

fun items_of :: "val \<Rightarrow> val list py" where
  "items_of (VList vs) = ret vs"
| "items_of (VTuple vs) = ret vs"
| "items_of (VRange a b) = ret (map VInt [a..b - 1])"
| "items_of (VDict items) = ret (map fst items)"
| "items_of (VStr s) = ret (map (\<lambda>c. VStr [c]) s)"
| "items_of v = raise (TypeError ''object is not iterable'')"

fun getattr :: "expr \<Rightarrow> val \<Rightarrow> string \<Rightarrow> val py" where
  "getattr e (VLib p) n = ret (VLib (p @ [n]))"
| "getattr e (VRef h) n = ret (VAttr h n)"
| "getattr (Name x) (VList vs) n = ret (VListMethod x n)"
| "getattr e (VList vs) n = raise (Unsupported ''method of a list that no variable holds'')"
| "getattr e v n = raise (AttributeError n)"

definition builtin :: "string \<Rightarrow> val list \<Rightarrow> (string \<times> val) list \<Rightarrow> val py" where
  "builtin b args kws \<sigma> =
     (if kws \<noteq> [] then (Inl (Unsupported ''keyword arguments of a built-in''), \<sigma>)
      else if b = ''print'' then (Inr VNone, log (Print args) \<sigma>)
      else if b = ''range'' then
        (case args of
           [VInt n] \<Rightarrow> (Inr (VRange 0 n), \<sigma>)
         | [VInt m, VInt n] \<Rightarrow> (Inr (VRange m n), \<sigma>)
         | _ \<Rightarrow> (Inl (Unsupported ''arguments of range''), \<sigma>))
      else (Inl (NameError b), \<sigma>))"

definition list_method :: "string \<Rightarrow> string \<Rightarrow> val list \<Rightarrow> (string \<times> val) list \<Rightarrow> val py" where
  "list_method x m args kws \<sigma> =
     (if m = ''append'' \<and> kws = [] then
        (case (map_of (env \<sigma>) x, args) of
           (Some (VList vs), [v]) \<Rightarrow>
             (Inr VNone, \<sigma>\<lparr>env := AList.update x (VList (vs @ [v])) (env \<sigma>)\<rparr>)
         | _ \<Rightarrow> (Inl (TypeError ''append''), \<sigma>))
      else (Inl (Unsupported ''list method''), \<sigma>))"

fun call_value :: "lib \<Rightarrow> val \<Rightarrow> val list \<Rightarrow> (string \<times> val) list \<Rightarrow> val py" where
  "call_value L (VBuiltin b) args kws = builtin b args kws"
| "call_value L (VListMethod x m) args kws = list_method x m args kws"
| "call_value L (VLib p) args kws = lib_call L (VLib p) args kws"
| "call_value L (VAttr h n) args kws = lib_call L (VAttr h n) args kws"
| "call_value L v args kws = raise (TypeError ''object is not callable'')"

definition dict_of :: "(val \<times> val) list \<Rightarrow> val" where
  "dict_of items = VDict (foldl (\<lambda>d (k, v). AList.update k v d) [] items)"

subsection \<open>Expressions, statements, cells\<close>

lemma bindM_cong [fundef_cong]:
  assumes "m = m'" and "\<And>v. f v = f' v"
  shows "bindM m f = bindM m' f'"
proof -
  have "f = f'" using assms(2) by (rule ext)
  with assms(1) show ?thesis by simp
qed

lemma catchM_cong [fundef_cong]:
  "m = m' \<Longrightarrow> h = h' \<Longrightarrow> catchM m h = catchM m' h'"
  by simp

lemma mapM_cong_aux:
  "(\<And>x. x \<in> set ys \<Longrightarrow> f x = g x) \<Longrightarrow> mapM f ys = mapM g ys"
  by (induction ys) simp_all

lemma mapM_cong [fundef_cong]:
  "xs = ys \<Longrightarrow> (\<And>x. x \<in> set ys \<Longrightarrow> f x = g x) \<Longrightarrow> mapM f xs = mapM g ys"
  using mapM_cong_aux by blast

text \<open>
  Python evaluates a call's callee, then its positional arguments, then its keyword
  arguments, each from left to right; an item assignment evaluates the right-hand side
  first, then the container, then the key.
\<close>

fun eval :: "lib \<Rightarrow> expr \<Rightarrow> val py" where
  "eval L (Name x) = lookup x"
| "eval L (IntLit i) = ret (VInt i)"
| "eval L (FloatLit r) = ret (VFloat r)"
| "eval L (StrLit s) = ret (VStr s)"
| "eval L (FString ps) =
     bindM (mapM (\<lambda>p. bindM (eval L p) format_value) ps) (\<lambda>ss. ret (VStr (concat ss)))"
| "eval L (ListE es) = bindM (mapM (eval L) es) (\<lambda>vs. ret (VList vs))"
| "eval L (TupleE es) = bindM (mapM (eval L) es) (\<lambda>vs. ret (VTuple vs))"
| "eval L (DictE kvs) =
     bindM (mapM (\<lambda>(k, e). bindM (eval L k) (\<lambda>kv. bindM (eval L e) (\<lambda>v. ret (kv, v)))) kvs)
       (\<lambda>items. ret (dict_of items))"
| "eval L (Attr e n) = bindM (eval L e) (\<lambda>v. getattr e v n)"
| "eval L (Subscript e k) = bindM (eval L e) (\<lambda>v. bindM (eval L k) (\<lambda>kv. getitem L v kv))"
| "eval L (Call f args kws) =
     bindM (eval L f) (\<lambda>fv.
     bindM (mapM (eval L) args) (\<lambda>avs.
     bindM (mapM (\<lambda>(k, e). bindM (eval L e) (\<lambda>v. ret (k, v))) kws) (\<lambda>kvs.
     call_value L fv avs kvs)))"
| "eval L (BinOp l op r) = raise (Unsupported ''operator'')"
| "eval L (Lambda ps b) = raise (Unsupported ''lambda'')"

text \<open>
  A \<open>for\<close> loop runs its body once for each item of the iterable, in order, with the
  loop variable bound to the item, and stops at the first exception. The items are those
  the iterable has when the loop starts; no loop of the notebooks changes the list it runs
  over. \<open>Try\<close> is the one statement that intercepts an exception. Operators,
  \<^verbatim>\<open>lambda\<close>, \<^verbatim>\<open>with\<close>, \<^verbatim>\<open>def\<close> and \<^verbatim>\<open>class\<close> lie outside the fragment that is
  given a meaning: running one raises \<open>Unsupported\<close>.
\<close>

fun exec :: "lib \<Rightarrow> stmt \<Rightarrow> unit py" where
  "exec L (Import m) = bind_name m (VLib [m])"
| "exec L (Assign (Name x) e) = bindM (eval L e) (bind_name x)"
| "exec L (Assign (Subscript t k) e) =
     bindM (eval L e) (\<lambda>v. bindM (eval L t) (\<lambda>tv. bindM (eval L k) (\<lambda>kv. setitem L tv kv v)))"
| "exec L (Assign t e) = raise (Unsupported ''assignment target'')"
| "exec L (ExprStmt e) = bindM (eval L e) (\<lambda>v. ret ())"
| "exec L (For x it body) =
     bindM (eval L it) (\<lambda>iv.
     bindM (items_of iv) (\<lambda>vs.
     bindM (mapM (\<lambda>v. bindM (bind_name x v) (\<lambda>u. bindM (mapM (exec L) body) (\<lambda>us. ret ()))) vs)
       (\<lambda>us. ret ())))"
| "exec L (Try body handler) =
     catchM (bindM (mapM (exec L) body) (\<lambda>us. ret ()))
            (bindM (mapM (exec L) handler) (\<lambda>us. ret ()))"
| "exec L (With e body) = raise (Unsupported ''with'')"
| "exec L (FunctionDef f ps body) = raise (Unsupported ''def'')"
| "exec L (ClassDef c body) = raise (Unsupported ''class'')"

definition execs :: "lib \<Rightarrow> stmt list \<Rightarrow> unit py" where
  "execs L ss = bindM (mapM (exec L) ss) (\<lambda>us. ret ())"

text \<open>
  Jupyter runs the statements of a cell in order and, when the last statement of the cell
  is an expression whose value is not \<^verbatim>\<open>None\<close>, displays that value as the cell's result.
\<close>

definition display :: "val \<Rightarrow> unit py" where
  "display v \<sigma> = (if v = VNone then (Inr (), \<sigma>) else (Inr (), log (Display v) \<sigma>))"

definition exec_cell :: "lib \<Rightarrow> stmt list \<Rightarrow> unit py" where
  "exec_cell L ss =
     (case rev ss of
        ExprStmt e # front \<Rightarrow> bindM (execs L (rev front)) (\<lambda>u. bindM (eval L e) display)
      | _ \<Rightarrow> execs L ss)"

text \<open>
  The cells run in order, the \<open>k\<close>-th with the cell counter at \<open>k\<close>; the run stops at the
  first cell that raises.
\<close>

fun run_cells :: "lib \<Rightarrow> nat \<Rightarrow> stmt list list \<Rightarrow> unit py" where
  "run_cells L k [] = ret ()"
| "run_cells L k (c # cs) =
     bindM (\<lambda>\<sigma>. exec_cell L c (\<sigma>\<lparr>cell := k\<rparr>)) (\<lambda>u. run_cells L (Suc k) cs)"

definition run :: "lib \<Rightarrow> stmt list list \<Rightarrow> (exn + unit) \<times> state" where
  "run L prog = run_cells L 0 prog init"

text \<open>
  The library that never raises of its own accord and knows the two parameter sets the
  notebooks name, with contents \<open>chen\<close> and \<open>ai\<close>; and the same library raising as
  \<open>f\<close> says.
\<close>

definition sets :: "(val \<times> val) list \<Rightarrow> (val \<times> val) list \<Rightarrow> string \<Rightarrow> (val \<times> val) list option" where
  "sets chen ai n =
     (if n = ''Chen2020'' then Some chen else if n = ''Ai2020'' then Some ai else None)"

definition library :: "(val \<times> val) list \<Rightarrow> (val \<times> val) list \<Rightarrow> (nat \<Rightarrow> exn option) \<Rightarrow> lib" where
  "library chen ai f = \<lparr>param_sets = sets chen ai, raises = f\<rparr>"

definition quiet :: "nat \<Rightarrow> exn option" where
  "quiet n = None"


section \<open>Reading a run\<close>

text \<open>
  What the claims read off a state or a trace: the events of one cell, the calls of a
  method, the object a variable refers to, the entries of a parameter set.
\<close>

definition in_cell :: "nat \<Rightarrow> (nat \<times> event) list \<Rightarrow> event list" where
  "in_cell k tr = map snd (filter (\<lambda>ce. fst ce = k) tr)"

fun method_call ::
  "string \<Rightarrow> nat \<times> event \<Rightarrow> (nat \<times> val list \<times> (string \<times> val) list \<times> (exn + val)) option" where
  "method_call m (c, LibCall (VAttr h n) args kws r) =
     (if n = m then Some (h, args, kws, r) else None)"
| "method_call m ev = None"

definition solves ::
  "(nat \<times> event) list \<Rightarrow> (nat \<times> val list \<times> (string \<times> val) list \<times> (exn + val)) list" where
  "solves tr = List.map_filter (method_call ''solve'') tr"

definition bound_to :: "state \<Rightarrow> string \<Rightarrow> (val \<times> obj) option" where
  "bound_to \<sigma> x =
     (case map_of (env \<sigma>) x of
        Some (VRef h) \<Rightarrow> if h < length (heap \<sigma>) then Some (VRef h, heap \<sigma> ! h) else None
      | _ \<Rightarrow> None)"

definition names :: "state \<Rightarrow> string list \<Rightarrow> val option list" where
  "names \<sigma> xs = map (map_of (env \<sigma>)) xs"

definition params_at :: "state \<Rightarrow> nat \<Rightarrow> (val \<times> val) list option" where
  "params_at \<sigma> h =
     (if h < length (heap \<sigma>)
      then (case heap \<sigma> ! h of ParamSet ps \<Rightarrow> Some ps | Instance c \<Rightarrow> None)
      else None)"

subsection \<open>Failures of the library\<close>

text \<open>
  The exception with which an interaction with the library failed, if it failed, and the
  exceptions the library has raised in the course of a trace.
\<close>

fun failure :: "event \<Rightarrow> exn option" where
  "failure (LibCall f args kws (Inl e)) = Some e"
| "failure (SetItem h k v (Some e)) = Some e"
| "failure (GetItem h k (Inl e)) = Some e"
| "failure ev = None"

definition faults :: "(nat \<times> event) list \<Rightarrow> exn list" where
  "faults tr = List.map_filter (\<lambda>ce. failure (snd ce)) tr"

text \<open>
  A statement intercepts nothing when neither it nor a statement nested in it is a
  \<^verbatim>\<open>try\<close> or a \<^verbatim>\<open>with\<close>.
\<close>

fun no_handlers :: "stmt \<Rightarrow> bool" where
  "no_handlers (Try body handler) = False"
| "no_handlers (With e body) = False"
| "no_handlers (For x it body) = list_all no_handlers body"
| "no_handlers (FunctionDef f ps body) = list_all no_handlers body"
| "no_handlers (ClassDef c body) = list_all no_handlers body"
| "no_handlers s = True"

text \<open>
  An outcome is sound when the library's failures show in it unchanged: a computation
  that returns has seen no failure, and one that raises \<open>e\<close> has either seen no failure
  (the exception is Python's own) or has seen exactly one, in the last interaction, and
  that failure is \<open>e\<close>. A computation is faithful when it turns every state without a
  failure into a sound outcome.
\<close>

fun sound :: "(exn + 'a) \<times> state \<Rightarrow> bool" where
  "sound (Inr v, \<sigma>) = (faults (trace \<sigma>) = [])"
| "sound (Inl e, \<sigma>) =
     (faults (trace \<sigma>) = []
      \<or> (faults (trace \<sigma>) = [e] \<and> failure (snd (last (trace \<sigma>))) = Some e))"

definition faithful :: "'a py \<Rightarrow> bool" where
  "faithful m = (\<forall>\<sigma>. faults (trace \<sigma>) = [] \<longrightarrow> sound (m \<sigma>))"

subsection \<open>The order of the calls\<close>

text \<open>
  The objects a trace has seen made: the models (instances of the three model classes
  the notebooks name), the simulations, the simulations that have been solved and the
  solutions that \<^verbatim>\<open>solve\<close> has returned.
\<close>

definition model_classes :: "val list" where
  "model_classes =
     [VLib [''pybamm'', ''lithium_ion'', ''SPM''],
      VLib [''pybamm'', ''lithium_ion'', ''SPMe''],
      VLib [''pybamm'', ''lithium_ion'', ''DFN'']]"

fun made_by :: "val list \<Rightarrow> event \<Rightarrow> nat option" where
  "made_by fs (LibCall f args kws (Inr (VRef r))) = (if f \<in> set fs then Some r else None)"
| "made_by fs ev = None"

fun solved_by :: "event \<Rightarrow> nat option" where
  "solved_by (LibCall (VAttr h n) args kws (Inr r)) = (if n = ''solve'' then Some h else None)"
| "solved_by ev = None"

fun solution_of :: "event \<Rightarrow> nat option" where
  "solution_of (LibCall (VAttr h n) args kws (Inr (VRef r))) =
     (if n = ''solve'' then Some r else None)"
| "solution_of ev = None"

definition models :: "event list \<Rightarrow> nat list" where
  "models past = List.map_filter (made_by model_classes) past"

definition simulations :: "event list \<Rightarrow> nat list" where
  "simulations past = List.map_filter (made_by [VLib [''pybamm'', ''Simulation'']]) past"

definition solved :: "event list \<Rightarrow> nat list" where
  "solved past = List.map_filter solved_by past"

definition solutions :: "event list \<Rightarrow> nat list" where
  "solutions past = List.map_filter solution_of past"

fun plottable :: "event list \<Rightarrow> val \<Rightarrow> bool" where
  "plottable past (VRef h) = (h \<in> set (solved past) \<or> h \<in> set (solutions past))"
| "plottable past v = False"

text \<open>
  An event is in order after the events \<open>past\<close> when a simulation is made from a model
  made before, \<^verbatim>\<open>solve\<close> is called on a simulation made before, and what is plotted
  (by \<^verbatim>\<open>plot\<close>, or as an item of the list given to \<^verbatim>\<open>dynamic_plot\<close>) is a simulation
  solved before or a solution returned before.
\<close>

fun step_ok :: "event list \<Rightarrow> event \<Rightarrow> bool" where
  "step_ok past (LibCall (VLib p) args kws r) =
     (if p = [''pybamm'', ''Simulation'']
      then (case args of VRef m # rest \<Rightarrow> m \<in> set (models past) | _ \<Rightarrow> False)
      else if p = [''pybamm'', ''dynamic_plot'']
      then (case args of VList vs # rest \<Rightarrow> list_all (plottable past) vs | _ \<Rightarrow> False)
      else True)"
| "step_ok past (LibCall (VAttr h n) args kws r) =
     (if n = ''solve'' then h \<in> set (simulations past)
      else if n = ''plot'' then plottable past (VRef h)
      else True)"
| "step_ok past ev = True"

definition in_order :: "event list \<Rightarrow> bool" where
  "in_order evs = list_all (\<lambda>i. step_ok (take i evs) (evs ! i)) [0..<length evs]"

fun is_plot :: "event \<Rightarrow> bool" where
  "is_plot (LibCall (VLib p) args kws r) = (p = [''pybamm'', ''dynamic_plot''])"
| "is_plot (LibCall (VAttr h n) args kws r) = (n = ''plot'')"
| "is_plot ev = False"

fun imported :: "stmt \<Rightarrow> string list" where
  "imported (Import m) = [m]"
| "imported s = []"

definition events :: "lib \<Rightarrow> stmt list list \<Rightarrow> event list" where
  "events L prog = map snd (trace (snd (run L prog)))"

subsection \<open>The arguments of the calls\<close>

text \<open>
  A literal is a constant, or a list, tuple or dictionary display of literals. A plain
  argument is a literal, a variable, or a dictionary display with literal keys whose
  values are literals or variables. The calls into the library are the calls whose callee
  is neither a built-in function nor the \<^verbatim>\<open>append\<close> of a list held in a variable; the
  arguments given to the library are the positional and keyword arguments of those calls
  and, for an item assignment, the key and the value.
\<close>

fun is_literal :: "expr \<Rightarrow> bool" where
  "is_literal (IntLit i) = True"
| "is_literal (FloatLit r) = True"
| "is_literal (StrLit s) = True"
| "is_literal (ListE es) = list_all is_literal es"
| "is_literal (TupleE es) = list_all is_literal es"
| "is_literal (DictE kvs) = list_all (\<lambda>(k, v). is_literal k \<and> is_literal v) kvs"
| "is_literal e = False"

fun is_name :: "expr \<Rightarrow> bool" where
  "is_name (Name x) = True"
| "is_name e = False"

fun plain :: "expr \<Rightarrow> bool" where
  "plain (DictE kvs) = list_all (\<lambda>(k, v). is_literal k \<and> (is_literal v \<or> is_name v)) kvs"
| "plain e = (is_literal e \<or> is_name e)"

fun builtin_callee :: "expr \<Rightarrow> bool" where
  "builtin_callee (Name f) = (f \<in> set builtins)"
| "builtin_callee (Attr (Name x) m) = (m = ''append'')"
| "builtin_callee e = False"

definition library_calls :: "stmt list list \<Rightarrow> expr list" where
  "library_calls prog = filter (\<lambda>c. \<not> builtin_callee (callee c)) (calls prog)"

fun override_args :: "stmt \<Rightarrow> expr list" where
  "override_args (Assign (Subscript t k) e) = [k, e]"
| "override_args s = []"

definition library_args :: "stmt list list \<Rightarrow> expr list" where
  "library_args prog =
     concat (map (\<lambda>c. positional c @ keyword_values c) (library_calls prog))
       @ concat (map override_args (statements prog))"

subsection \<open>The sweep of the input current\<close>

text \<open>
  One iteration of a \<open>for\<close> loop, and the loop as the interpreter runs it, iteration by
  iteration.
\<close>

definition iteration :: "lib \<Rightarrow> string \<Rightarrow> stmt list \<Rightarrow> val \<Rightarrow> unit py" where
  "iteration L x body v = bindM (bind_name x v) (\<lambda>u. execs L body)"

text \<open>
  The cell of either notebook that sweeps the input current is code cell 8. Its first six
  statements set the sweep up, its seventh is the loop, its eighth the call of
  \<^verbatim>\<open>dynamic_plot\<close>. \<open>sweep_after L k\<close> is the computation that sets the sweep up and
  runs the first \<open>k\<close> iterations of the loop, whose items are the integers
  1, 2, 3 and 4 of \<^verbatim>\<open>range(1, 5)\<close>.
\<close>

definition sweep_cell :: "stmt list" where
  "sweep_cell = part_000_program ! 8"

definition sweep_setup :: "stmt list" where
  "sweep_setup = take 6 sweep_cell"

definition sweep_body :: "stmt list" where
  "sweep_body = (case sweep_cell ! 6 of For x it body \<Rightarrow> body | _ \<Rightarrow> [])"

definition sweep_after :: "lib \<Rightarrow> nat \<Rightarrow> unit py" where
  "sweep_after L k =
     bindM (execs L sweep_setup) (\<lambda>u.
       bindM (mapM (iteration L ''i'' sweep_body) (map VInt (take k [1, 2, 3, 4])))
         (\<lambda>us. ret ()))"

section \<open>The run of the notebooks\<close>

text \<open>
  Both notebooks hold the same program (the fact is proved on the syntax here and on the
  source text below), so one run stands for both.
\<close>

lemma programs_equal: "pybamm_ipynb_program = part_000_program"
  by (simp add: pybamm_ipynb_program_def part_000_program_def)

text \<open>
  The state in which the run ends when the library raises nothing: the variables, the
  objects the library has made, and the trace of the 39 interactions with the library,
  of the one \<^verbatim>\<open>print\<close> and of the results the cells display. Each entry of the trace
  carries the number of its code cell, counted from 0.
\<close>

definition final_state :: "(val \<times> val) list \<Rightarrow> (val \<times> val) list \<Rightarrow> state" where
  "final_state chen ai =
     \<lparr>env =
          [(''pybamm'', VLib [''pybamm'']), (''model'', VRef 32),
           (''simulation'', VRef 34),
           (''models'', VList [VRef 4, VRef 5, VRef 6]),
           (''simulations'', VList [VRef 7, VRef 9, VRef 11]),
           (''parameter_values'', VRef 33), (''sim'', VRef 19),
           (''solutions'', VList [VRef 27, VRef 30]),
           (''labels'',
            VList
             [VStr ''Current = 1 [A]'', VStr ''Current = 2 [A]'',
              VStr ''Current = 3 [A]'', VStr ''Current = 4 [A]'']),
           (''i'', VInt 4), (''sol'', VRef 23),
           (''thermal_options'', VList [VStr ''isothermal'', VStr ''x-full'']),
           (''option'', VStr ''x-full''), (''solution'', VRef 35)],
          heap =
            [Instance (VLib [''pybamm'', ''lithium_ion'', ''DFN'']),
             Instance (VLib [''pybamm'', ''Simulation'']),
             Instance (VAttr 1 ''solve''), Instance (VAttr 1 ''plot''),
             Instance (VLib [''pybamm'', ''lithium_ion'', ''SPM'']),
             Instance (VLib [''pybamm'', ''lithium_ion'', ''SPMe'']),
             Instance (VLib [''pybamm'', ''lithium_ion'', ''DFN'']),
             Instance (VLib [''pybamm'', ''Simulation'']),
             Instance (VAttr 7 ''solve''),
             Instance (VLib [''pybamm'', ''Simulation'']),
             Instance (VAttr 9 ''solve''),
             Instance (VLib [''pybamm'', ''Simulation'']),
             Instance (VAttr 11 ''solve''),
             Instance (VLib [''pybamm'', ''dynamic_plot'']),
             ParamSet
              (AList.update (VStr ''Current function [A]'') (VFloat 2) chen),
             Instance (VLib [''pybamm'', ''Simulation'']),
             Instance (VAttr 15 ''solve''),
             ParamSet
              (AList.update (VStr ''Current function [A]'') (VStr ''[input]'') chen),
             Instance (VLib [''pybamm'', ''lithium_ion'', ''SPM'']),
             Instance (VLib [''pybamm'', ''Simulation'']),
             Instance (VAttr 19 ''solve''), Instance (VAttr 19 ''solve''),
             Instance (VAttr 19 ''solve''), Instance (VAttr 19 ''solve''),
             Instance (VLib [''pybamm'', ''dynamic_plot'']),
             Instance (VLib [''pybamm'', ''lithium_ion'', ''DFN'']),
             Instance (VLib [''pybamm'', ''Simulation'']),
             Instance (VAttr 26 ''solve''),
             Instance (VLib [''pybamm'', ''lithium_ion'', ''DFN'']),
             Instance (VLib [''pybamm'', ''Simulation'']),
             Instance (VAttr 29 ''solve''),
             Instance (VLib [''pybamm'', ''dynamic_plot'']),
             Instance (VLib [''pybamm'', ''lithium_ion'', ''DFN'']), ParamSet ai,
             Instance (VLib [''pybamm'', ''Simulation'']),
             Instance (VAttr 34 ''solve''), Instance (VAttr 35 ''plot'')],
          trace =
            [(1, LibCall (VLib [''pybamm'', ''lithium_ion'', ''DFN'']) [] []
                  (Inr (VRef 0))),
             (2, LibCall (VLib [''pybamm'', ''Simulation'']) [VRef 0] []
                  (Inr (VRef 1))),
             (3, LibCall (VAttr 1 ''solve'') [VList [VInt 0, VInt 3600]] []
                  (Inr (VRef 2))),
             (3, Display (VRef 2)),
             (4, LibCall (VAttr 1 ''plot'') [] [] (Inr (VRef 3))),
             (4, Display (VRef 3)),
             (5, LibCall (VLib [''pybamm'', ''lithium_ion'', ''SPM'']) [] []
                  (Inr (VRef 4))),
             (5, LibCall (VLib [''pybamm'', ''lithium_ion'', ''SPMe'']) [] []
                  (Inr (VRef 5))),
             (5, LibCall (VLib [''pybamm'', ''lithium_ion'', ''DFN'']) [] []
                  (Inr (VRef 6))),
             (5, LibCall (VLib [''pybamm'', ''Simulation'']) [VRef 4] []
                  (Inr (VRef 7))),
             (5, LibCall (VAttr 7 ''solve'') [VList [VInt 0, VInt 3600]] []
                  (Inr (VRef 8))),
             (5, LibCall (VLib [''pybamm'', ''Simulation'']) [VRef 5] []
                  (Inr (VRef 9))),
             (5, LibCall (VAttr 9 ''solve'') [VList [VInt 0, VInt 3600]] []
                  (Inr (VRef 10))),
             (5, LibCall (VLib [''pybamm'', ''Simulation'']) [VRef 6] []
                  (Inr (VRef 11))),
             (5, LibCall (VAttr 11 ''solve'') [VList [VInt 0, VInt 3600]] []
                  (Inr (VRef 12))),
             (5, LibCall (VLib [''pybamm'', ''dynamic_plot''])
                  [VList [VRef 7, VRef 9, VRef 11]] [] (Inr (VRef 13))),
             (5, Display (VRef 13)),
             (6, LibCall (VLib [''pybamm'', ''ParameterValues''])
                  [VStr ''Chen2020''] [] (Inr (VRef 14))),
             (6, Print [VRef 14]),
             (7, SetItem 14 (VStr ''Current function [A]'') (VFloat 2) None),
             (7, LibCall (VLib [''pybamm'', ''Simulation'']) [VRef 6]
                  [(''parameter_values'', VRef 14)] (Inr (VRef 15))),
             (7, LibCall (VAttr 15 ''solve'') [VList [VInt 0, VInt 3600]] []
                  (Inr (VRef 16))),
             (7, Display (VRef 16)),
             (8, LibCall (VLib [''pybamm'', ''ParameterValues''])
                  [VStr ''Chen2020''] [] (Inr (VRef 17))),
             (8, SetItem 17 (VStr ''Current function [A]'') (VStr ''[input]'')
                  None),
             (8, LibCall (VLib [''pybamm'', ''lithium_ion'', ''SPM'']) [] []
                  (Inr (VRef 18))),
             (8, LibCall (VLib [''pybamm'', ''Simulation'']) [VRef 18]
                  [(''parameter_values'', VRef 17)] (Inr (VRef 19))),
             (8, LibCall (VAttr 19 ''solve'') [VList [VInt 0, VInt 3600]]
                  [(''inputs'', VDict [(VStr ''Current function [A]'', VInt 1)])]
                  (Inr (VRef 20))),
             (8, LibCall (VAttr 19 ''solve'') [VList [VInt 0, VInt 3600]]
                  [(''inputs'', VDict [(VStr ''Current function [A]'', VInt 2)])]
                  (Inr (VRef 21))),
             (8, LibCall (VAttr 19 ''solve'') [VList [VInt 0, VInt 3600]]
                  [(''inputs'', VDict [(VStr ''Current function [A]'', VInt 3)])]
                  (Inr (VRef 22))),
             (8, LibCall (VAttr 19 ''solve'') [VList [VInt 0, VInt 3600]]
                  [(''inputs'', VDict [(VStr ''Current function [A]'', VInt 4)])]
                  (Inr (VRef 23))),
             (8, LibCall (VLib [''pybamm'', ''dynamic_plot''])
                  [VList [VRef 20, VRef 21, VRef 22, VRef 23]]
                  [(''labels'',
                    VList
                     [VStr ''Current = 1 [A]'', VStr ''Current = 2 [A]'',
                      VStr ''Current = 3 [A]'', VStr ''Current = 4 [A]''])]
                  (Inr (VRef 24))),
             (8, Display (VRef 24)), (9, Display (VAttr 18 ''submodels'')),
             (10,
              LibCall (VLib [''pybamm'', ''lithium_ion'', ''DFN'']) []
               [(''name'', VStr ''isothermal''),
                (''options'', VDict [(VStr ''thermal'', VStr ''isothermal'')])]
               (Inr (VRef 25))),
             (10,
              LibCall (VLib [''pybamm'', ''Simulation'']) [VRef 25] []
               (Inr (VRef 26))),
             (10,
              LibCall (VAttr 26 ''solve'') [VList [VInt 0, VInt 3600]] []
               (Inr (VRef 27))),
             (10,
              LibCall (VLib [''pybamm'', ''lithium_ion'', ''DFN'']) []
               [(''name'', VStr ''x-full''),
                (''options'', VDict [(VStr ''thermal'', VStr ''x-full'')])]
               (Inr (VRef 28))),
             (10,
              LibCall (VLib [''pybamm'', ''Simulation'']) [VRef 28] []
               (Inr (VRef 29))),
             (10,
              LibCall (VAttr 29 ''solve'') [VList [VInt 0, VInt 3600]] []
               (Inr (VRef 30))),
             (10,
              LibCall (VLib [''pybamm'', ''dynamic_plot''])
               [VList [VRef 27, VRef 30]]
               [(''output_variables'',
                 VList
                  [VStr ''Negative particle surface concentration [mol.m-3]'',
                   VStr ''Electrolyte concentration [mol.m-3]'',
                   VStr ''Positive particle surface concentration [mol.m-3]'',
                   VStr ''Negative electrode potential [V]'',
                   VStr ''Electrolyte potential [V]'',
                   VStr ''Positive electrode potential [V]'',
                   VStr ''Current [A]'', VStr ''Voltage [V]'',
                   VStr ''Cell temperature [K]''])]
               (Inr (VRef 31))),
             (10, Display (VRef 31)),
             (11,
              LibCall (VLib [''pybamm'', ''lithium_ion'', ''DFN'']) []
               [(''options'',
                 VDict
                  [(VStr ''particle mechanics'',
                    VTuple
                     [VStr ''swelling only'', VStr ''swelling and cracking''])])]
               (Inr (VRef 32))),
             (11,
              LibCall (VLib [''pybamm'', ''ParameterValues'']) [VStr ''Ai2020'']
               [] (Inr (VRef 33))),
             (11,
              LibCall (VLib [''pybamm'', ''Simulation'']) [VRef 32]
               [(''parameter_values'', VRef 33)] (Inr (VRef 34))),
             (11,
              LibCall (VAttr 34 ''solve'') [VList [VInt 0, VInt 3600]] []
               (Inr (VRef 35))),
             (11,
              LibCall (VAttr 35 ''plot'')
               [VList
                 [VStr ''Negative particle surface radial stress [Pa]'',
                  VStr ''Negative particle surface tangential stress [Pa]'',
                  VStr ''Negative particle surface displacement [m]'',
                  VStr ''Negative particle crack length [m]'',
                  VStr ''Positive particle surface radial stress [Pa]'',
                  VStr ''Positive particle surface tangential stress [Pa]'',
                  VStr ''Positive particle surface displacement [m]'',
                  VStr ''Positive particle crack length [m]'']]
               [] (Inr (VRef 36))),
             (11, Display (VRef 36))],
          ncalls = 39, cell = 11\<rparr>"

lemma run_quiet:
  "run (library chen ai quiet) part_000_program = (Inr (), final_state chen ai)"
  by code_simp

lemma events_quiet:
  "events (library chen ai quiet) part_000_program = map snd (trace (final_state chen ai))"
  by (simp add: events_def run_quiet)

subsection \<open>Exceptions are not intercepted\<close>

text \<open>
  Every primitive of the interpreter is faithful, and sequencing keeps computations
  faithful; so the expressions are faithful, and so are the statements that intercept
  nothing.
\<close>

lemma faults_snoc:
  "faults (tr @ [(c, ev)]) = faults tr @ (case failure ev of None \<Rightarrow> [] | Some e \<Rightarrow> [e])"
  by (simp add: faults_def List.map_filter_def split: option.splits)

lemma faithfulI: "(\<And>\<sigma>::state. faults (trace \<sigma>) = [] \<Longrightarrow> sound (m \<sigma>)) \<Longrightarrow> faithful m"
  by (simp add: faithful_def)

lemma faithfulD: "faithful m \<Longrightarrow> faults (trace \<sigma>) = [] \<Longrightarrow> sound (m \<sigma>)"
  by (simp add: faithful_def)

lemma faithful_ret: "faithful (ret v)"
  by (simp add: faithful_def ret_def)

lemma faithful_raise: "faithful (raise e)"
  by (simp add: faithful_def raise_def)

lemma faithful_bindM:
  assumes "faithful m" and "\<And>v. faithful (f v)"
  shows "faithful (bindM m f)"
proof (rule faithfulI)
  fix \<sigma> :: state assume clean: "faults (trace \<sigma>) = []"
  obtain r \<sigma>' where m: "m \<sigma> = (r, \<sigma>')" by (cases "m \<sigma>")
  from assms(1) clean have s: "sound (m \<sigma>)" by (rule faithfulD)
  show "sound (bindM m f \<sigma>)"
  proof (cases r)
    case (Inl e)
    with m s show ?thesis by (simp add: bindM_def)
  next
    case (Inr v)
    with m s have "faults (trace \<sigma>') = []" by simp
    with assms(2) have "sound (f v \<sigma>')" by (rule faithfulD)
    with m Inr show ?thesis by (simp add: bindM_def)
  qed
qed

lemma faithful_mapM:
  "(\<And>x. x \<in> set xs \<Longrightarrow> faithful (f x)) \<Longrightarrow> faithful (mapM f xs)"
  by (induction xs) (simp_all add: faithful_ret faithful_bindM)


lemma faithful_lookup: "faithful (lookup x)"
  by (simp add: faithful_def lookup_def split: option.splits)

lemma faithful_bind_name: "faithful (bind_name x v)"
  by (simp add: faithful_def bind_name_def)

lemma faithful_format_value: "faithful (format_value v)"
  by (cases v) (simp_all add: faithful_ret faithful_raise)

lemma faithful_items_of: "faithful (items_of v)"
  by (cases v) (simp_all add: faithful_ret faithful_raise)

lemma faithful_getattr: "faithful (getattr e v n)"
  by (cases "(e, v, n)" rule: getattr.cases) (simp_all add: faithful_ret faithful_raise)

lemma faithful_builtin: "faithful (builtin b args kws)"
  by (auto simp: faithful_def builtin_def log_def faults_snoc split: list.splits val.splits)

lemma faithful_list_method: "faithful (list_method x m args kws)"
  by (auto simp: faithful_def list_method_def split: option.splits list.splits val.splits)

lemma faithful_lib_call: "faithful (lib_call L f args kws)"
  by (auto simp: faithful_def lib_call_def log_def tick_def faults_snoc
      split: option.splits sum.splits)

lemma faithful_setitem: "faithful (setitem L t k v)"
  by (auto simp: faithful_def setitem_def log_def tick_def faults_snoc
      split: val.splits option.splits obj.splits)

lemma faithful_getitem: "faithful (getitem L t k)"
  by (auto simp: faithful_def getitem_def log_def tick_def faults_snoc
      split: val.splits option.splits obj.splits)

lemma faithful_call_value: "faithful (call_value L f args kws)"
  by (cases f) (simp_all add: faithful_builtin faithful_list_method faithful_lib_call faithful_raise)

lemma faithful_display: "faithful (display v)"
  by (simp add: faithful_def display_def log_def faults_snoc)

lemmas faithful_intros =
  faithful_ret faithful_raise faithful_bindM faithful_mapM faithful_lookup faithful_bind_name
  faithful_format_value faithful_items_of faithful_getattr faithful_call_value
  faithful_setitem faithful_getitem faithful_display

lemma faithful_eval: "faithful (eval L e)"
proof (induction e)
  case (DictE kvs)
  have "faithful (case kv of (k, e) \<Rightarrow> bindM (eval L k) (\<lambda>kv. bindM (eval L e) (\<lambda>v. ret (kv, v))))"
    if "kv \<in> set kvs" for kv
  proof (cases kv)
    case (Pair k e)
    with that DictE.IH(1) [of kv k] DictE.IH(2) [of kv e] show ?thesis
      by (simp add: faithful_intros)
  qed
  then show ?case
    by (simp add: faithful_intros)
next
  case (Call f args kws)
  have "faithful (case ke of (k, e) \<Rightarrow> bindM (eval L e) (\<lambda>v. ret (k, v)))"
    if "ke \<in> set kws" for ke
  proof (cases ke)
    case (Pair k e)
    with that Call.IH(3) [of ke e] show ?thesis
      by (simp add: faithful_intros)
  qed
  with Call.IH(1,2) show ?case
    by (simp add: faithful_intros)
qed (simp_all add: faithful_intros)

lemma faithful_exec: "no_handlers s \<Longrightarrow> faithful (exec L s)"
proof (induction s)
  case (Assign t e)
  then show ?case
    by (cases t) (simp_all add: faithful_intros faithful_eval)
next
  case (For x it body)
  then have "faithful (exec L b)" if "b \<in> set body" for b
    using that by (simp add: list_all_iff)
  then show ?case
    by (simp add: faithful_intros faithful_eval)
qed (simp_all add: faithful_intros faithful_eval)

lemma faithful_execs: "list_all no_handlers ss \<Longrightarrow> faithful (execs L ss)"
  by (simp add: execs_def faithful_intros faithful_exec list_all_iff)

lemma faithful_exec_cell: "list_all no_handlers ss \<Longrightarrow> faithful (exec_cell L ss)"
proof -
  assume a: "list_all no_handlers ss"
  show ?thesis
  proof (cases "rev ss")
    case Nil
    with a show ?thesis by (simp add: exec_cell_def faithful_execs)
  next
    case (Cons s front)
    then have ss: "ss = rev front @ [s]" by (metis rev.simps(2) rev_rev_ident)
    with a have f: "list_all no_handlers (rev front)" by simp
    show ?thesis
      using a f Cons
      by (cases s) (simp_all add: exec_cell_def faithful_execs faithful_intros faithful_eval)
  qed
qed

lemma faithful_run_cells:
  "list_all (list_all no_handlers) cs \<Longrightarrow> faithful (run_cells L k cs)"
proof (induction cs arbitrary: k)
  case Nil
  show ?case by (simp add: faithful_ret)
next
  case (Cons c cs)
  have "faithful (\<lambda>\<sigma>. exec_cell L c (\<sigma>\<lparr>cell := k\<rparr>))"
    using Cons.prems faithful_exec_cell [of c L]
    by (simp add: faithful_def)
  with Cons show ?case
    by (simp add: faithful_bindM)
qed

lemma sound_run: "list_all (list_all no_handlers) prog \<Longrightarrow> sound (run L prog)"
  using faithful_run_cells [of prog L 0]
  by (simp add: run_def faithful_def init_def faults_def)

lemma sole_fault_is_last:
  assumes "faults tr = [e]" and "failure (snd (last tr)) = Some e'"
    and "ce \<in> set tr" and "failure (snd ce) = Some e''"
  shows "ce = last tr \<and> e'' = e"
proof -
  from assms(1) have ne: "tr \<noteq> []" by (auto simp: faults_def)
  then have tr: "tr = butlast tr @ [last tr]" by simp
  obtain c ev where l: "last tr = (c, ev)" by (cases "last tr")
  from assms(1) tr l assms(2) have "faults (butlast tr) @ [e'] = [e]"
    by (metis faults_snoc option.simps(5) snd_conv)
  then have b: "faults (butlast tr) = []" and "e' = e" by simp_all
  have "ce \<notin> set (butlast tr)"
  proof
    assume "ce \<in> set (butlast tr)"
    with assms(4) have "e'' \<in> set (faults (butlast tr))"
      by (force simp: faults_def List.map_filter_def)
    with b show False by simp
  qed
  with assms(3) tr have "ce = last tr"
    by (metis Un_iff empty_iff empty_set set_ConsD set_append)
  with assms(2,4) \<open>e' = e\<close> show ?thesis by simp
qed


subsection \<open>The sweep, step by step\<close>

lemma digits_small: "n < 10 \<Longrightarrow> digits n = [''0123456789'' ! n]"
  by (simp add: digits.simps)

lemma exec_For:
  "exec L (For x it body) =
     bindM (eval L it) (\<lambda>iv. bindM (items_of iv) (\<lambda>vs.
       bindM (mapM (iteration L x body) vs) (\<lambda>us. ret ())))"
proof -
  have "iteration L x body =
      (\<lambda>v. bindM (bind_name x v) (\<lambda>u. bindM (mapM (exec L) body) (\<lambda>us. ret ())))"
    by (rule ext) (simp add: iteration_def execs_def)
  then show ?thesis by simp
qed

lemma sweep_cell_eq:
  "sweep_cell =

     [Assign
       (Name ''parameter_values'')
       (Call (Attr (Name ''pybamm'') ''ParameterValues'') [StrLit ''Chen2020''] []),
     Assign
       (Subscript (Name ''parameter_values'') (StrLit ''Current function [A]''))
       (StrLit ''[input]''),
     Assign
       (Name ''model'')
       (Call (Attr (Attr (Name ''pybamm'') ''lithium_ion'') ''SPM'') [] []),
     Assign
       (Name ''sim'')
       (Call
          (Attr (Name ''pybamm'') ''Simulation'')
          [Name ''model'']
          [(''parameter_values'', Name ''parameter_values'')]),
     Assign (Name ''solutions'') (ListE []),
     Assign (Name ''labels'') (ListE []),
     For ''i'' (Call (Name ''range'') [IntLit 1, IntLit 5] [])
       [Assign
          (Name ''sol'')
          (Call
             (Attr (Name ''sim'') ''solve'')
             [ListE [IntLit 0, IntLit 3600]]
             [(''inputs'', DictE [(StrLit ''Current function [A]'', Name ''i'')])]),
        ExprStmt (Call (Attr (Name ''solutions'') ''append'') [Name ''sol''] []),
        ExprStmt
          (Call
             (Attr (Name ''labels'') ''append'')
             [FString [StrLit ''Current = '', Name ''i'', StrLit '' [A]'']]
             [])],
     ExprStmt
       (Call
          (Attr (Name ''pybamm'') ''dynamic_plot'')
          [Name ''solutions'']
          [(''labels'', Name ''labels'')])]"
  by (simp add: sweep_cell_def part_000_program_def)

lemmas py_defs =
  execs_def bindM_def ret_def raise_def log_def tick_def new_object_def lib_call_def
  setitem_def builtins_def lookup_def bind_name_def str_int_def builtin_def list_method_def
  dict_of_def sets_def library_def quiet_def

section \<open>The claims\<close>

text \<open>
  C1. Every call of a simulation's \<^verbatim>\<open>solve\<close> is made over the same time horizon. In
  the text of either notebook there are six calls of a method \<^verbatim>\<open>solve\<close>, and the
  positional arguments of each are the one list \<^verbatim>\<open>[0, 3600]\<close>. In the run of either
  notebook the library's \<^verbatim>\<open>solve\<close> is entered twelve times (the loops repeat three of
  the six calls), and each time its positional arguments are the one list of the integers
  0 and 3600.
\<close>

theorem solve_time_horizon:
  "map positional (solve_sites pybamm_ipynb_program) = replicate 6 [ListE [IntLit 0, IntLit 3600]]
   \<and> map positional (solve_sites part_000_program) = replicate 6 [ListE [IntLit 0, IntLit 3600]]
   \<and> map (fst \<circ> snd) (solves (trace (snd (run (library chen ai quiet) pybamm_ipynb_program))))
       = replicate 12 [VList [VInt 0, VInt 3600]]
   \<and> map (fst \<circ> snd) (solves (trace (snd (run (library chen ai quiet) part_000_program))))
       = replicate 12 [VList [VInt 0, VInt 3600]]"
proof -
  have sites: "map positional (solve_sites part_000_program)
      = replicate 6 [ListE [IntLit 0, IntLit 3600]]"
    by code_simp
  have "map (fst \<circ> snd) (solves (trace (final_state chen ai)))
      = replicate 12 [VList [VInt 0, VInt 3600]]"
    by (simp add: final_state_def solves_def numeral_eq_Suc)
  then have "map (fst \<circ> snd) (solves (trace (snd (run (library chen ai quiet) part_000_program))))
      = replicate 12 [VList [VInt 0, VInt 3600]]"
    by (simp add: run_quiet)
  with sites show ?thesis
    by (simp add: programs_equal)
qed

text \<open>
  C2, as the spec states it, fails: not every argument given to the library is a literal.
  The call \<^verbatim>\<open>sim.solve([0, 3600], inputs={ "Current function [A]": i})\<close> of the sweep
  is a call into the library, and its keyword argument holds the loop variable \<^verbatim>\<open>i\<close>.
\<close>

theorem nonliteral_argument:
  "Call (Attr (Name ''sim'') ''solve'') [ListE [IntLit 0, IntLit 3600]]
       [(''inputs'', DictE [(StrLit ''Current function [A]'', Name ''i'')])]
     \<in> set (library_calls part_000_program)
   \<and> \<not> is_literal (DictE [(StrLit ''Current function [A]'', Name ''i'')])
   \<and> \<not> list_all is_literal (library_args part_000_program)
   \<and> \<not> list_all is_literal (library_args pybamm_ipynb_program)"
proof -
  have "Call (Attr (Name ''sim'') ''solve'') [ListE [IntLit 0, IntLit 3600]]
       [(''inputs'', DictE [(StrLit ''Current function [A]'', Name ''i'')])]
     \<in> set (library_calls part_000_program)"
    by code_simp
  moreover have "\<not> list_all is_literal (library_args part_000_program)"
    by code_simp
  ultimately show ?thesis
    by (simp add: programs_equal)
qed

text \<open>
  C2, amended. Every argument the notebooks give to the library is plain: a literal, a
  variable, or a dictionary display with literal keys whose values are literals or
  variables; none is computed by an operator, a call, a subscript or an f-string. The
  arguments that are not literals are the sixteen listed, in the order of the text. The
  positional arguments of every \<^verbatim>\<open>solve\<close> (the time span) are literals, and so are
  the key and the value of both parameter overrides. The second notebook is the same
  program.
\<close>

theorem arguments_plain:
  "list_all plain (library_args part_000_program)
   \<and> filter (\<lambda>e. \<not> is_literal e) (library_args part_000_program) =
       [Name ''model'', Name ''model'', Name ''simulations'', Name ''model'',
        Name ''parameter_values'', Name ''model'', Name ''parameter_values'',
        DictE [(StrLit ''Current function [A]'', Name ''i'')], Name ''solutions'',
        Name ''labels'', Name ''option'', DictE [(StrLit ''thermal'', Name ''option'')],
        Name ''model'', Name ''solutions'', Name ''model'', Name ''parameter_values'']
   \<and> list_all (\<lambda>c. list_all is_literal (positional c)) (solve_sites part_000_program)
   \<and> concat (map override_args (statements part_000_program)) =
       [StrLit ''Current function [A]'', FloatLit 2,
        StrLit ''Current function [A]'', StrLit ''[input]'']
   \<and> pybamm_ipynb_program = part_000_program"
proof -
  have "list_all plain (library_args part_000_program)"
    by code_simp
  moreover have "filter (\<lambda>e. \<not> is_literal e) (library_args part_000_program) =
       [Name ''model'', Name ''model'', Name ''simulations'', Name ''model'',
        Name ''parameter_values'', Name ''model'', Name ''parameter_values'',
        DictE [(StrLit ''Current function [A]'', Name ''i'')], Name ''solutions'',
        Name ''labels'', Name ''option'', DictE [(StrLit ''thermal'', Name ''option'')],
        Name ''model'', Name ''solutions'', Name ''model'', Name ''parameter_values'']"
    by code_simp
  moreover have "list_all (\<lambda>c. list_all is_literal (positional c)) (solve_sites part_000_program)"
    by code_simp
  moreover have "concat (map override_args (statements part_000_program)) =
       [StrLit ''Current function [A]'', FloatLit 2,
        StrLit ''Current function [A]'', StrLit ''[input]'']"
    by code_simp
  ultimately show ?thesis
    by (simp add: programs_equal)
qed

text \<open>
  C3. No code cell of either notebook holds a \<^verbatim>\<open>try\<close> or a \<^verbatim>\<open>with\<close>, at any
  depth. And whatever the library does: an interaction with the library that fails with
  an exception \<open>e\<close> is the last event of the run, and the run of the notebook ends with
  \<open>e\<close> itself.
\<close>

theorem exceptions_propagate:
  "list_all (list_all no_handlers) pybamm_ipynb_program
   \<and> list_all (list_all no_handlers) part_000_program
   \<and> (ce \<in> set (trace (snd (run L pybamm_ipynb_program))) \<and> failure (snd ce) = Some e
        \<longrightarrow> fst (run L pybamm_ipynb_program) = Inl e
            \<and> last (trace (snd (run L pybamm_ipynb_program))) = ce)
   \<and> (ce \<in> set (trace (snd (run L part_000_program))) \<and> failure (snd ce) = Some e
        \<longrightarrow> fst (run L part_000_program) = Inl e
            \<and> last (trace (snd (run L part_000_program))) = ce)"
proof -
  have nh: "list_all (list_all no_handlers) part_000_program"
    by code_simp
  have "fst (run L part_000_program) = Inl e \<and> last (trace (snd (run L part_000_program))) = ce"
    if mem: "ce \<in> set (trace (snd (run L part_000_program)))" and f: "failure (snd ce) = Some e"
  proof -
    obtain r \<sigma> where run: "run L part_000_program = (r, \<sigma>)"
      by (cases "run L part_000_program")
    from nh have s: "sound (run L part_000_program)"
      by (rule sound_run)
    from mem f run have "e \<in> set (faults (trace \<sigma>))"
      by (force simp: faults_def List.map_filter_def)
    then have ne: "faults (trace \<sigma>) \<noteq> []"
      by auto
    show ?thesis
    proof (cases r)
      case (Inr v)
      with s run ne show ?thesis by simp
    next
      case (Inl e')
      with s run ne have one: "faults (trace \<sigma>) = [e']"
        and l: "failure (snd (last (trace \<sigma>))) = Some e'"
        by simp_all
      from mem run have m: "ce \<in> set (trace \<sigma>)" by simp
      have "ce = last (trace \<sigma>) \<and> e = e'"
        using one l m f by (rule sole_fault_is_last)
      with run Inl show ?thesis by simp
    qed
  qed
  with nh show ?thesis
    by (simp add: programs_equal)
qed

text \<open>
  A witness: a library whose fourth interaction, the \<^verbatim>\<open>simulation.plot()\<close> of code
  cell 4, fails.
\<close>

theorem exceptions_propagate_witness:
  "(4, LibCall (VAttr 1 ''plot'') [] [] (Inl (LibraryError ''plot'')))
     \<in> set (trace (snd (run (library [] []
          (\<lambda>n. if n = 3 then Some (LibraryError ''plot'') else None)) part_000_program)))
   \<and> fst (run (library [] [] (\<lambda>n. if n = 3 then Some (LibraryError ''plot'') else None))
            part_000_program) = Inl (LibraryError ''plot'')
   \<and> last (trace (snd (run (library [] []
          (\<lambda>n. if n = 3 then Some (LibraryError ''plot'') else None)) part_000_program)))
       = (4, LibCall (VAttr 1 ''plot'') [] [] (Inl (LibraryError ''plot'')))"
proof -
  have mem: "(4, LibCall (VAttr 1 ''plot'') [] [] (Inl (LibraryError ''plot'')))
     \<in> set (trace (snd (run (library [] []
          (\<lambda>n. if n = 3 then Some (LibraryError ''plot'') else None)) part_000_program)))"
    by code_simp
  with exceptions_propagate
    [of "(4, LibCall (VAttr 1 ''plot'') [] [] (Inl (LibraryError ''plot'')))"
        "library [] [] (\<lambda>n. if n = 3 then Some (LibraryError ''plot'') else None)"
        "LibraryError ''plot''"]
  show ?thesis
    by simp
qed

text \<open>
  C4. In the run of either notebook the calls come in order: every simulation is made
  from a model made before, every \<^verbatim>\<open>solve\<close> is called on a simulation made before,
  and everything plotted (by \<^verbatim>\<open>plot\<close> or through \<^verbatim>\<open>dynamic_plot\<close>) is a simulation solved
  before or a solution returned before. The run makes eight models and nine simulations,
  solves twelve times and plots five times. It is one sequence of events, the run being a
  function of the notebook and the library; the only module a notebook imports is
  \<^verbatim>\<open>pybamm\<close>.
\<close>

theorem calls_in_order:
  "in_order (events (library chen ai quiet) part_000_program)
   \<and> length (models (events (library chen ai quiet) part_000_program)) = 8
   \<and> length (simulations (events (library chen ai quiet) part_000_program)) = 9
   \<and> length (solved (events (library chen ai quiet) part_000_program)) = 12
   \<and> length (filter is_plot (events (library chen ai quiet) part_000_program)) = 5
   \<and> concat (map imported (statements part_000_program)) = [''pybamm'']
   \<and> pybamm_ipynb_program = part_000_program"
proof -
  have "in_order (map snd (trace (final_state chen ai)))"
    by code_simp
  moreover have "length (models (map snd (trace (final_state chen ai)))) = 8"
    by code_simp
  moreover have "length (simulations (map snd (trace (final_state chen ai)))) = 9"
    by code_simp
  moreover have "length (solved (map snd (trace (final_state chen ai)))) = 12"
    by code_simp
  moreover have "length (filter is_plot (map snd (trace (final_state chen ai)))) = 5"
    by code_simp
  moreover have "concat (map imported (statements part_000_program)) = [''pybamm'']"
    by code_simp
  ultimately show ?thesis
    by (simp add: events_quiet programs_equal)
qed

text \<open>
  C5. The events of the sweep cell (code cell 8), in order: the parameter set is made and
  its current set to \<^verbatim>\<open>"[input]"\<close>, an SPM and one simulation (object 19) are made, that
  one simulation is solved four times over \<^verbatim>\<open>[0, 3600]\<close> with the inputs
  \<^verbatim>\<open>{"Current function [A]": i}\<close> for \<open>i\<close> = 1, 2, 3, 4, returning the solutions 20 to
  23, and \<^verbatim>\<open>dynamic_plot\<close> is called once with the list of those four solutions and
  the four labels, in the same order. The second notebook is the same program.
\<close>

theorem sweep_calls:
  "in_cell 8 (trace (snd (run (library chen ai quiet) part_000_program))) =
     [LibCall (VLib [''pybamm'', ''ParameterValues'']) [VStr ''Chen2020''] [] (Inr (VRef 17)),
      SetItem 17 (VStr ''Current function [A]'') (VStr ''[input]'') None,
      LibCall (VLib [''pybamm'', ''lithium_ion'', ''SPM'']) [] [] (Inr (VRef 18)),
      LibCall (VLib [''pybamm'', ''Simulation'']) [VRef 18]
        [(''parameter_values'', VRef 17)] (Inr (VRef 19)),
      LibCall (VAttr 19 ''solve'') [VList [VInt 0, VInt 3600]]
        [(''inputs'', VDict [(VStr ''Current function [A]'', VInt 1)])] (Inr (VRef 20)),
      LibCall (VAttr 19 ''solve'') [VList [VInt 0, VInt 3600]]
        [(''inputs'', VDict [(VStr ''Current function [A]'', VInt 2)])] (Inr (VRef 21)),
      LibCall (VAttr 19 ''solve'') [VList [VInt 0, VInt 3600]]
        [(''inputs'', VDict [(VStr ''Current function [A]'', VInt 3)])] (Inr (VRef 22)),
      LibCall (VAttr 19 ''solve'') [VList [VInt 0, VInt 3600]]
        [(''inputs'', VDict [(VStr ''Current function [A]'', VInt 4)])] (Inr (VRef 23)),
      LibCall (VLib [''pybamm'', ''dynamic_plot''])
        [VList [VRef 20, VRef 21, VRef 22, VRef 23]]
        [(''labels'',
          VList [VStr ''Current = 1 [A]'', VStr ''Current = 2 [A]'',
                 VStr ''Current = 3 [A]'', VStr ''Current = 4 [A]''])]
        (Inr (VRef 24)),
      Display (VRef 24)]
   \<and> pybamm_ipynb_program = part_000_program"
  by (simp add: run_quiet programs_equal in_cell_def final_state_def)

text \<open>
  C6. The container is the library's, modelled from the spec (see the library above). The
  Chen2020 set is made
  in code cell 6 as object 14 with the entries \<open>chen\<close>. Code cell 7 assigns 2.0 to its
  entry \<^verbatim>\<open>"Current function [A]"\<close>, then makes a simulation with that same object 14
  as \<^verbatim>\<open>parameter_values\<close>, then solves it. After the cell, the entry of the key is 2.0
  and the entry of every other key is what it was in \<open>chen\<close>.
\<close>

theorem substitution_frame:
  "in_cell 6 (trace (snd (run (library chen ai quiet) part_000_program))) =
     [LibCall (VLib [''pybamm'', ''ParameterValues'']) [VStr ''Chen2020''] [] (Inr (VRef 14)),
      Print [VRef 14]]
   \<and> params_at (snd (run (library chen ai quiet) (take 7 part_000_program))) 14 = Some chen
   \<and> in_cell 7 (trace (snd (run (library chen ai quiet) part_000_program))) =
     [SetItem 14 (VStr ''Current function [A]'') (VFloat 2) None,
      LibCall (VLib [''pybamm'', ''Simulation'']) [VRef 6]
        [(''parameter_values'', VRef 14)] (Inr (VRef 15)),
      LibCall (VAttr 15 ''solve'') [VList [VInt 0, VInt 3600]] [] (Inr (VRef 16)),
      Display (VRef 16)]
   \<and> (\<exists>ps. params_at (snd (run (library chen ai quiet) (take 8 part_000_program))) 14 = Some ps
        \<and> map_of ps (VStr ''Current function [A]'') = Some (VFloat 2)
        \<and> (\<forall>k. k \<noteq> VStr ''Current function [A]'' \<longrightarrow> map_of ps k = map_of chen k))
   \<and> pybamm_ipynb_program = part_000_program"
proof -
  have before: "params_at (snd (run (library chen ai quiet) (take 7 part_000_program))) 14
      = Some chen"
    by code_simp
  have after: "params_at (snd (run (library chen ai quiet) (take 8 part_000_program))) 14
      = Some (AList.update (VStr ''Current function [A]'') (VFloat 2) chen)"
    by code_simp
  have cells: "in_cell 6 (trace (final_state chen ai)) =
     [LibCall (VLib [''pybamm'', ''ParameterValues'']) [VStr ''Chen2020''] [] (Inr (VRef 14)),
      Print [VRef 14]]"
    "in_cell 7 (trace (final_state chen ai)) =
     [SetItem 14 (VStr ''Current function [A]'') (VFloat 2) None,
      LibCall (VLib [''pybamm'', ''Simulation'']) [VRef 6]
        [(''parameter_values'', VRef 14)] (Inr (VRef 15)),
      LibCall (VAttr 15 ''solve'') [VList [VInt 0, VInt 3600]] [] (Inr (VRef 16)),
      Display (VRef 16)]"
    by (simp_all add: in_cell_def final_state_def)
  from before after cells show ?thesis
    by (simp add: run_quiet programs_equal update_conv')
qed

text \<open>
  A witness: a Chen2020 set of two entries, the current and the ambient temperature. The
  temperature comes through the substitution unchanged.
\<close>

theorem substitution_frame_witness:
  "\<exists>ps. params_at (snd (run (library
            [(VStr ''Current function [A]'', VFloat 5),
             (VStr ''Ambient temperature [K]'', VFloat (5963 / 20))] [] quiet)
          (take 8 part_000_program))) 14 = Some ps
     \<and> map_of ps (VStr ''Current function [A]'') = Some (VFloat 2)
     \<and> map_of ps (VStr ''Ambient temperature [K]'') = Some (VFloat (5963 / 20))"
  using substitution_frame
    [of "[(VStr ''Current function [A]'', VFloat 5),
          (VStr ''Ambient temperature [K]'', VFloat (5963 / 20))]" "[]"]
  by auto

text \<open>
  C7, as the spec states it, fails in its last clause: the code the notebooks contribute
  is not made of lists, dictionaries, \<open>for\<close> loops and literal arguments alone. The
  notebooks call the built-in functions \<^verbatim>\<open>print\<close> and \<^verbatim>\<open>range\<close>, build a tuple
  (the particle mechanics option) and an f-string (the label of a solution), and give the
  library arguments that are not literals.
\<close>

theorem more_than_lists_and_literals:
  "Name ''print'' \<in> set (map callee (calls part_000_program))
   \<and> Name ''range'' \<in> set (map callee (calls part_000_program))
   \<and> TupleE [StrLit ''swelling only'', StrLit ''swelling and cracking'']
       \<in> set (expressions part_000_program)
   \<and> FString [StrLit ''Current = '', Name ''i'', StrLit '' [A]'']
       \<in> set (expressions part_000_program)
   \<and> \<not> list_all (\<lambda>e. expr_kind_of e \<in> set [EName, EInt, EFloat, EStr, EList, EDict,
                                               EAttr, ESubscript, ECall])
           (expressions part_000_program)
   \<and> \<not> list_all is_literal (library_args part_000_program)
   \<and> pybamm_ipynb_program = part_000_program"
proof -
  have "Name ''print'' \<in> set (map callee (calls part_000_program))"
    by code_simp
  moreover have "Name ''range'' \<in> set (map callee (calls part_000_program))"
    by code_simp
  moreover have "TupleE [StrLit ''swelling only'', StrLit ''swelling and cracking'']
       \<in> set (expressions part_000_program)"
    by code_simp
  moreover have "FString [StrLit ''Current = '', Name ''i'', StrLit '' [A]'']
       \<in> set (expressions part_000_program)"
    by code_simp
  moreover have "\<not> list_all (\<lambda>e. expr_kind_of e \<in> set [EName, EInt, EFloat, EStr, EList, EDict,
                                               EAttr, ESubscript, ECall])
           (expressions part_000_program)"
    by code_simp
  moreover have "\<not> list_all is_literal (library_args part_000_program)"
    by code_simp
  ultimately show ?thesis
    by (simp add: programs_equal)
qed

text \<open>
  C7, amended. The notebooks define nothing of their own. The statements of either
  notebook, nested ones included, are imports, assignments, expression statements and
  \<open>for\<close> loops: there is no \<^verbatim>\<open>def\<close> and no \<^verbatim>\<open>class\<close> (and no \<^verbatim>\<open>try\<close> or \<^verbatim>\<open>with\<close>),
  and no expression is a \<^verbatim>\<open>lambda\<close> or an operator applied to operands. Everything
  the notebooks call is in the list: the classes and functions of \<^verbatim>\<open>pybamm\<close>, the
  methods \<^verbatim>\<open>solve\<close> and \<^verbatim>\<open>plot\<close> of the objects it returns, the \<^verbatim>\<open>append\<close> of three
  lists, and the built-in \<^verbatim>\<open>print\<close> and \<^verbatim>\<open>range\<close>; the calls that are not calls into
  the library are the four \<^verbatim>\<open>append\<close>s, one \<^verbatim>\<open>print\<close> and one \<^verbatim>\<open>range\<close>. The
  expressions are names, integer, float and string constants, list, tuple and dictionary
  displays, f-strings, attribute references, subscripts and calls; there is exactly one
  tuple and exactly one f-string. Every argument given to the library is a literal, a
  variable, or a dictionary display with literal keys whose values are literals or
  variables.
\<close>

theorem nothing_defined:
  "set (map kind_of (statements part_000_program)) = {KImport, KAssign, KExpr, KFor}
   \<and> remdups (map callee (calls part_000_program)) =
       [Attr (Name ''simulation'') ''plot'',
        Attr (Attr (Name ''pybamm'') ''lithium_ion'') ''SPMe'',
        Attr (Name ''simulations'') ''append'',
        Name ''print'',
        Attr (Attr (Name ''pybamm'') ''lithium_ion'') ''SPM'',
        Name ''range'',
        Attr (Name ''sim'') ''solve'',
        Attr (Name ''labels'') ''append'',
        Attr (Name ''solutions'') ''append'',
        Attr (Name ''pybamm'') ''dynamic_plot'',
        Attr (Attr (Name ''pybamm'') ''lithium_ion'') ''DFN'',
        Attr (Name ''pybamm'') ''ParameterValues'',
        Attr (Name ''pybamm'') ''Simulation'',
        Attr (Name ''simulation'') ''solve'',
        Attr (Name ''solution'') ''plot'']
   \<and> filter is_computed (expressions part_000_program) = []
   \<and> filter builtin_callee (map callee (calls part_000_program)) =
       [Attr (Name ''simulations'') ''append'', Name ''print'', Name ''range'',
        Attr (Name ''solutions'') ''append'', Attr (Name ''labels'') ''append'',
        Attr (Name ''solutions'') ''append'']
   \<and> set (map expr_kind_of (expressions part_000_program)) =
       {EName, EInt, EFloat, EStr, EFString, EList, ETuple, EDict, EAttr, ESubscript, ECall}
   \<and> filter (\<lambda>e. expr_kind_of e = ETuple) (expressions part_000_program) =
       [TupleE [StrLit ''swelling only'', StrLit ''swelling and cracking'']]
   \<and> filter (\<lambda>e. expr_kind_of e = EFString) (expressions part_000_program) =
       [FString [StrLit ''Current = '', Name ''i'', StrLit '' [A]'']]
   \<and> list_all plain (library_args part_000_program)
   \<and> pybamm_ipynb_program = part_000_program"
proof -
  have computed: "filter is_computed (expressions part_000_program) = []"
    by code_simp
  have "remdups (map kind_of (statements part_000_program)) = [KImport, KFor, KAssign, KExpr]"
    by code_simp
  then have "set (remdups (map kind_of (statements part_000_program)))
      = set [KImport, KFor, KAssign, KExpr]"
    by (rule arg_cong)
  then have kinds: "set (map kind_of (statements part_000_program))
      = {KImport, KAssign, KExpr, KFor}"
    by auto
  have callees: "remdups (map callee (calls part_000_program)) =
       [Attr (Name ''simulation'') ''plot'',
        Attr (Attr (Name ''pybamm'') ''lithium_ion'') ''SPMe'',
        Attr (Name ''simulations'') ''append'',
        Name ''print'',
        Attr (Attr (Name ''pybamm'') ''lithium_ion'') ''SPM'',
        Name ''range'',
        Attr (Name ''sim'') ''solve'',
        Attr (Name ''labels'') ''append'',
        Attr (Name ''solutions'') ''append'',
        Attr (Name ''pybamm'') ''dynamic_plot'',
        Attr (Attr (Name ''pybamm'') ''lithium_ion'') ''DFN'',
        Attr (Name ''pybamm'') ''ParameterValues'',
        Attr (Name ''pybamm'') ''Simulation'',
        Attr (Name ''simulation'') ''solve'',
        Attr (Name ''solution'') ''plot'']"
    by code_simp
  have builtin_calls: "filter builtin_callee (map callee (calls part_000_program)) =
       [Attr (Name ''simulations'') ''append'', Name ''print'', Name ''range'',
        Attr (Name ''solutions'') ''append'', Attr (Name ''labels'') ''append'',
        Attr (Name ''solutions'') ''append'']"
    by code_simp
  have "remdups (map expr_kind_of (expressions part_000_program)) =
      [EFloat, ESubscript, EFString, EDict, ETuple, EInt, ECall, EAttr, EName, EList, EStr]"
    by code_simp
  then have "set (remdups (map expr_kind_of (expressions part_000_program))) =
      set [EFloat, ESubscript, EFString, EDict, ETuple, EInt, ECall, EAttr, EName, EList, EStr]"
    by (rule arg_cong)
  then have expr_kinds: "set (map expr_kind_of (expressions part_000_program)) =
      {EName, EInt, EFloat, EStr, EFString, EList, ETuple, EDict, EAttr, ESubscript, ECall}"
    by auto
  have tuples: "filter (\<lambda>e. expr_kind_of e = ETuple) (expressions part_000_program) =
       [TupleE [StrLit ''swelling only'', StrLit ''swelling and cracking'']]"
    by code_simp
  have fstrings: "filter (\<lambda>e. expr_kind_of e = EFString) (expressions part_000_program) =
       [FString [StrLit ''Current = '', Name ''i'', StrLit '' [A]'']]"
    by code_simp
  have args: "list_all plain (library_args part_000_program)"
    by code_simp
  from computed kinds callees builtin_calls expr_kinds tuples fstrings args show ?thesis
    by (simp add: programs_equal)
qed

text \<open>
  C8. The two notebooks are the same program. Their code cells, twelve in each, have the
  same source text in the same order, line for line, and so the same syntax and the same
  run against any library. The cells of \<^verbatim>\<open>src/pybamm.ipynb\<close> are, kind for kind, the
  first 26 cells of \<^verbatim>\<open>src/unnamed/part_000\<close>, which ends with one more markdown cell.
\<close>

theorem notebooks_same_program:
  "pybamm_ipynb_source = part_000_source
   \<and> length part_000_source = 12
   \<and> length (filter (\<lambda>k. k = Code) pybamm_ipynb_layout) = 12
   \<and> length (filter (\<lambda>k. k = Code) part_000_layout) = 12
   \<and> pybamm_ipynb_layout = take 26 part_000_layout
   \<and> drop 26 part_000_layout = [Markdown]
   \<and> pybamm_ipynb_program = part_000_program
   \<and> length part_000_program = 12
   \<and> run L pybamm_ipynb_program = run L part_000_program"
proof -
  have "pybamm_ipynb_source = part_000_source"
    by (simp add: pybamm_ipynb_source_def part_000_source_def)
  moreover have "length part_000_source = 12"
    by (simp add: part_000_source_def)
  moreover have "length (filter (\<lambda>k. k = Code) pybamm_ipynb_layout) = 12"
    by (simp add: pybamm_ipynb_layout_def)
  moreover have "length (filter (\<lambda>k. k = Code) part_000_layout) = 12"
    by (simp add: part_000_layout_def)
  moreover have "pybamm_ipynb_layout = take 26 part_000_layout"
    by (simp add: pybamm_ipynb_layout_def part_000_layout_def)
  moreover have "drop 26 part_000_layout = [Markdown]"
    by (simp add: part_000_layout_def)
  moreover have "length part_000_program = 12"
    by (simp add: part_000_program_def)
  ultimately show ?thesis
    by (simp add: programs_equal)
qed

text \<open>
  C9. When the cell \<^verbatim>\<open>model.submodels\<close> (code cell 9) is reached, the variable
  \<^verbatim>\<open>model\<close> refers to object 18, an instance of \<^verbatim>\<open>pybamm.lithium_ion.SPM\<close>. That
  object was made by the call \<^verbatim>\<open>pybamm.lithium_ion.SPM()\<close> of the sweep cell (code cell
  8). What the cell displays is the attribute \<^verbatim>\<open>submodels\<close> of object 18, not of the
  DFN that code cell 1 made at the start of the notebook, which is object 0.
\<close>

theorem submodels_of_spm:
  "bound_to (snd (run (library chen ai quiet) (take 9 part_000_program))) ''model''
     = Some (VRef 18, Instance (VLib [''pybamm'', ''lithium_ion'', ''SPM'']))
   \<and> in_cell 9 (trace (snd (run (library chen ai quiet) part_000_program)))
     = [Display (VAttr 18 ''submodels'')]
   \<and> (8, LibCall (VLib [''pybamm'', ''lithium_ion'', ''SPM'']) [] [] (Inr (VRef 18)))
     \<in> set (trace (snd (run (library chen ai quiet) part_000_program)))
   \<and> in_cell 1 (trace (snd (run (library chen ai quiet) part_000_program)))
     = [LibCall (VLib [''pybamm'', ''lithium_ion'', ''DFN'']) [] [] (Inr (VRef 0))]
   \<and> pybamm_ipynb_program = part_000_program"
proof -
  have "bound_to (snd (run (library chen ai quiet) (take 9 part_000_program))) ''model''
     = Some (VRef 18, Instance (VLib [''pybamm'', ''lithium_ion'', ''SPM'']))"
    by code_simp
  then show ?thesis
    by (simp add: run_quiet programs_equal in_cell_def final_state_def)
qed

text \<open>
  C10. The invariant of the sweep loop. Start the sweep cell in any state in which
  \<^verbatim>\<open>pybamm\<close> is the imported module, with \<open>h\<close> objects in the heap. The set-up makes
  three objects, the simulation being object \<open>h + 2\<close>. After the set-up and \<open>k\<close>
  iterations, \<open>k\<close> from 0 to 4, the computation has not raised; \<^verbatim>\<open>solutions\<close> holds the
  \<open>k\<close> objects \<open>h + 3 + j\<close>, for \<open>j\<close> below \<open>k\<close>, and \<^verbatim>\<open>labels\<close> holds the first
  \<open>k\<close> of the four strings \<^verbatim>\<open>Current = 1 [A]\<close>, \<^verbatim>\<open>Current = 2 [A]\<close>,
  \<^verbatim>\<open>Current = 3 [A]\<close>, \<^verbatim>\<open>Current = 4 [A]\<close>, so both lists have length \<open>k\<close>: both are
  empty before the loop and each grows by one in every iteration; and the \<open>j\<close>-th call
  of \<^verbatim>\<open>solve\<close>, made on the simulation with the input current \<open>j + 1\<close>, is the one that
  returned object \<open>h + 3 + j\<close>. Where \<^verbatim>\<open>range\<close> is the built-in, the state after four
  iterations is the state in which the loop statement ends, that is, the state in which
  \<^verbatim>\<open>dynamic_plot\<close> is called. The sweep cell is code cell 8 of both notebooks.
\<close>

theorem sweep_loop_invariant:
  assumes "names \<sigma> [''pybamm'', ''range''] = [Some (VLib [''pybamm'']), None]" and "k \<le> 4"
  shows "\<exists>\<sigma>'. sweep_after (library chen ai quiet) k \<sigma> = (Inr (), \<sigma>')
     \<and> map_of (env \<sigma>') ''solutions''
         = Some (VList (map (\<lambda>j. VRef (length (heap \<sigma>) + 3 + j)) [0..<k]))
     \<and> map_of (env \<sigma>') ''labels''
         = Some (VList (take k [VStr ''Current = 1 [A]'', VStr ''Current = 2 [A]'',
                                VStr ''Current = 3 [A]'', VStr ''Current = 4 [A]'']))
     \<and> solves (drop (length (trace \<sigma>)) (trace \<sigma>'))
         = map (\<lambda>j. (length (heap \<sigma>) + 2,
                     [VList [VInt 0, VInt 3600]],
                     [(''inputs'', VDict [(VStr ''Current function [A]'', VInt (int j + 1))])],
                     Inr (VRef (length (heap \<sigma>) + 3 + j)))) [0..<k]
     \<and> execs (library chen ai quiet) (take 7 sweep_cell) \<sigma>
         = sweep_after (library chen ai quiet) 4 \<sigma>
     \<and> pybamm_ipynb_program ! 8 = sweep_cell"
proof -
  have same: "pybamm_ipynb_program ! 8 = sweep_cell"
    by (simp add: programs_equal sweep_cell_def)
  from assms(1) have pybamm: "map_of (env \<sigma>) ''pybamm'' = Some (VLib [''pybamm''])"
    and range: "map_of (env \<sigma>) ''range'' = None"
    by (simp_all add: names_def)
  have link: "execs (library chen ai quiet) (take 7 sweep_cell) \<sigma>
      = sweep_after (library chen ai quiet) 4 \<sigma>"
    using pybamm range
    by (simp add: sweep_after_def sweep_setup_def sweep_body_def sweep_cell_eq iteration_def
        py_defs digits_small update_conv' upto_rec1)
  from assms(2) consider "k = 0" | "k = 1" | "k = 2" | "k = 3" | "k = 4"
    by linarith
  then have "\<exists>\<sigma>'. sweep_after (library chen ai quiet) k \<sigma> = (Inr (), \<sigma>')
     \<and> map_of (env \<sigma>') ''solutions''
         = Some (VList (map (\<lambda>j. VRef (length (heap \<sigma>) + 3 + j)) [0..<k]))
     \<and> map_of (env \<sigma>') ''labels''
         = Some (VList (take k [VStr ''Current = 1 [A]'', VStr ''Current = 2 [A]'',
                                VStr ''Current = 3 [A]'', VStr ''Current = 4 [A]'']))
     \<and> solves (drop (length (trace \<sigma>)) (trace \<sigma>'))
         = map (\<lambda>j. (length (heap \<sigma>) + 2,
                     [VList [VInt 0, VInt 3600]],
                     [(''inputs'', VDict [(VStr ''Current function [A]'', VInt (int j + 1))])],
                     Inr (VRef (length (heap \<sigma>) + 3 + j)))) [0..<k]"
  proof cases
    case 1
    with pybamm show ?thesis
      by (simp add: sweep_after_def sweep_setup_def sweep_body_def sweep_cell_eq iteration_def
          py_defs digits_small update_conv' solves_def)
  next
    case 2
    with pybamm show ?thesis
      by (simp add: sweep_after_def sweep_setup_def sweep_body_def sweep_cell_eq iteration_def
          py_defs digits_small update_conv' solves_def)
  next
    case 3
    with pybamm show ?thesis
      by (simp add: sweep_after_def sweep_setup_def sweep_body_def sweep_cell_eq iteration_def
          py_defs digits_small update_conv' solves_def upt_conv_Cons)
  next
    case 4
    with pybamm show ?thesis
      by (simp add: sweep_after_def sweep_setup_def sweep_body_def sweep_cell_eq iteration_def
          py_defs digits_small update_conv' solves_def upt_conv_Cons)
  next
    case 5
    with pybamm show ?thesis
      by (simp add: sweep_after_def sweep_setup_def sweep_body_def sweep_cell_eq iteration_def
          py_defs digits_small update_conv' solves_def upt_conv_Cons)
  qed
  with link same show ?thesis
    by blast
qed

text \<open>
  A witness: the state in which the notebook reaches the sweep cell, that is, the state
  after its code cells 0 to 7, and all four iterations.
\<close>

theorem sweep_loop_invariant_witness:
  "names (snd (run (library [] [] quiet) (take 8 part_000_program))) [''pybamm'', ''range'']
     = [Some (VLib [''pybamm'']), None]
   \<and> (4::nat) \<le> 4
   \<and> (\<exists>\<sigma>'. sweep_after (library [] [] quiet) 4
             (snd (run (library [] [] quiet) (take 8 part_000_program))) = (Inr (), \<sigma>')
        \<and> map_of (env \<sigma>') ''labels''
            = Some (VList [VStr ''Current = 1 [A]'', VStr ''Current = 2 [A]'',
                           VStr ''Current = 3 [A]'', VStr ''Current = 4 [A]''])
        \<and> map_of (env \<sigma>') ''solutions''
            = Some (VList [VRef 20, VRef 21, VRef 22, VRef 23]))"
proof -
  have h: "names (snd (run (library [] [] quiet) (take 8 part_000_program)))
      [''pybamm'', ''range''] = [Some (VLib [''pybamm'']), None]"
    by code_simp
  have n: "length (heap (snd (run (library [] [] quiet) (take 8 part_000_program)))) = 17"
    by code_simp
  have k: "(4::nat) \<le> 4"
    by simp
  have u: "[0..<4] = [0, 1, 2, Suc 2]"
    by (simp add: upt_conv_Cons)
  from sweep_loop_invariant [OF h k, of "[]" "[]"]
  obtain \<sigma>' where
    "sweep_after (library [] [] quiet) 4
       (snd (run (library [] [] quiet) (take 8 part_000_program))) = (Inr (), \<sigma>')"
    "map_of (env \<sigma>') ''solutions'' = Some (VList (map (\<lambda>j. VRef (17 + 3 + j)) [0..<4]))"
    "map_of (env \<sigma>') ''labels''
       = Some (VList (take 4 [VStr ''Current = 1 [A]'', VStr ''Current = 2 [A]'',
                              VStr ''Current = 3 [A]'', VStr ''Current = 4 [A]'']))"
    unfolding n by blast
  with h k u show ?thesis
    by simp
qed

end
